theory Spec2Isabelle
  imports Complex_Main "HOL-Library.Sublist"
begin

section \<open>Values and the Python primitives the engine relies on\<close>

text \<open>
  The engine (\<^verbatim>\<open>swagger_tester.py\<close>) works on decoded JSON: the contract document, the
  parameter values sent by the front-end, and the response bodies. A Python \<^verbatim>\<open>None\<close> is
  \<open>JNull\<close>; a \<^verbatim>\<open>dict\<close> is an association list in insertion order, read with
  \<open>map_of\<close> and written with \<open>dict_set\<close>. A string is the list of the bytes of its
  UTF-8 encoding; lengths and slices count code points (\<open>py_len\<close>, \<open>py_take\<close>,
  \<open>py_drop\<close>). Finite floats are carried by their exact value.
\<close>

datatype json =
    JNull
  | JBool bool
  | JInt int
  | JFloat rat
  | JStr string
  | JArr "json list"
  | JObj "(string \<times> json) list"

type_synonym dict = "(string \<times> json) list"

text \<open>
  The exceptions the model tracks. \<^verbatim>\<open>requests\<close> raises \<open>ConnectionError\<close>,
  \<open>ConnectTimeout\<close> (a subclass of both \<open>ConnectionError\<close> and \<open>Timeout\<close>),
  \<open>Timeout\<close> and other subclasses of \<open>RequestException\<close>, carried with their message.
  \<open>ValueError\<close> stands for \<^verbatim>\<open>ValueError\<close> and its subclasses, the JSON decode errors
  among them.
\<close>

datatype py_error =
    TypeError
  | KeyError
  | AttributeError
  | ValueError
  | RecursionError
  | ConnectionError
  | ConnectTimeout
  | Timeout
  | RequestException string

text \<open>
  What Python's library computes and the source only calls: \<^verbatim>\<open>str\<close> of a float, list or
  dict, \<^verbatim>\<open>json.dumps(_, indent=2)\<close> (which may raise), \<^verbatim>\<open>str.lower\<close> and
  \<^verbatim>\<open>str.upper\<close> with their Unicode case tables, \<^verbatim>\<open>base64.b64encode\<close>, and the analysis
  collaborator \<^verbatim>\<open>ask_gemini\<close> (prompt and key in, text out; it catches its own
  failures). They are parameters of the model.
\<close>

record pylib =
  py_repr :: "json \<Rightarrow> string"
  json_dumps :: "json \<Rightarrow> py_error + string"
  str_lower :: "string \<Rightarrow> string"
  str_upper :: "string \<Rightarrow> string"
  ask_gemini :: "string \<Rightarrow> string \<Rightarrow> string"
  b64encode :: "string \<Rightarrow> string"

fun py_truthy :: "json \<Rightarrow> bool" where
  "py_truthy JNull = False"
| "py_truthy (JBool b) = b"
| "py_truthy (JInt i) = (i \<noteq> 0)"
| "py_truthy (JFloat r) = (r \<noteq> 0)"
| "py_truthy (JStr s) = (s \<noteq> [])"
| "py_truthy (JArr xs) = (xs \<noteq> [])"
| "py_truthy (JObj kvs) = (kvs \<noteq> [])"

definition py_or :: "json \<Rightarrow> json \<Rightarrow> json" where
  "py_or a b = (if py_truthy a then a else b)"

definition digit_char :: "nat \<Rightarrow> char" where
  "digit_char d = char_of (48 + d)"

fun show_nat :: "nat \<Rightarrow> string" where
  "show_nat n = (if n < 10 then [digit_char n] else show_nat (n div 10) @ [digit_char (n mod 10)])"

declare show_nat.simps [simp del]

definition show_int :: "int \<Rightarrow> string" where
  "show_int i = (if i < 0 then CHR ''-'' # show_nat (nat (- i)) else show_nat (nat i))"

fun py_str :: "pylib \<Rightarrow> json \<Rightarrow> string" where
  "py_str L (JStr s) = s"
| "py_str L JNull = ''None''"
| "py_str L (JBool b) = (if b then ''True'' else ''False'')"
| "py_str L (JInt i) = show_int i"
| "py_str L v = py_repr L v"

text \<open>
  Code points in a UTF-8 string: a byte from \<open>0x80\<close> to \<open>0xBF\<close> continues the code
  point begun before it. \<^verbatim>\<open>len(s)\<close>, \<^verbatim>\<open>s[:n]\<close> and \<^verbatim>\<open>s[n:]\<close>:
\<close>

definition is_continuation :: "char \<Rightarrow> bool" where
  "is_continuation c = (let n = (of_char c :: nat) in 128 \<le> n \<and> n < 192)"

definition py_len :: "string \<Rightarrow> nat" where
  "py_len s = length (filter (\<lambda>c. \<not> is_continuation c) s)"

fun py_take :: "nat \<Rightarrow> string \<Rightarrow> string" where
  "py_take n [] = []"
| "py_take n (c # cs) =
     (if is_continuation c then c # py_take n cs
      else (case n of 0 \<Rightarrow> [] | Suc k \<Rightarrow> c # py_take k cs))"

fun py_drop :: "nat \<Rightarrow> string \<Rightarrow> string" where
  "py_drop n [] = []"
| "py_drop n (c # cs) =
     (if is_continuation c then py_drop n cs
      else (case n of 0 \<Rightarrow> c # cs | Suc k \<Rightarrow> py_drop k cs))"

text \<open>
  \<^verbatim>\<open>str.strip()\<close> removes the code points for which \<^verbatim>\<open>str.isspace\<close> holds, from both
  ends: the ASCII ones and, in UTF-8, \<open>U+0085\<close>, \<open>U+00A0\<close>, \<open>U+1680\<close>, \<open>U+2000\<close> to
  \<open>U+200A\<close>, \<open>U+2028\<close>, \<open>U+2029\<close>, \<open>U+202F\<close>, \<open>U+205F\<close> and \<open>U+3000\<close>.
\<close>

definition whitespace_codes :: "string list" where
  "whitespace_codes =
    [[CHR 0x09], [CHR 0x0A], [CHR 0x0B], [CHR 0x0C], [CHR 0x0D], [CHR 0x1C], [CHR 0x1D],
     [CHR 0x1E], [CHR 0x1F], [CHR 0x20], [CHR 0xC2, CHR 0x85], [CHR 0xC2, CHR 0xA0],
     [CHR 0xE1, CHR 0x9A, CHR 0x80], [CHR 0xE2, CHR 0x80, CHR 0x80],
     [CHR 0xE2, CHR 0x80, CHR 0x81], [CHR 0xE2, CHR 0x80, CHR 0x82],
     [CHR 0xE2, CHR 0x80, CHR 0x83], [CHR 0xE2, CHR 0x80, CHR 0x84],
     [CHR 0xE2, CHR 0x80, CHR 0x85], [CHR 0xE2, CHR 0x80, CHR 0x86],
     [CHR 0xE2, CHR 0x80, CHR 0x87], [CHR 0xE2, CHR 0x80, CHR 0x88],
     [CHR 0xE2, CHR 0x80, CHR 0x89], [CHR 0xE2, CHR 0x80, CHR 0x8A],
     [CHR 0xE2, CHR 0x80, CHR 0xA8], [CHR 0xE2, CHR 0x80, CHR 0xA9],
     [CHR 0xE2, CHR 0x80, CHR 0xAF], [CHR 0xE2, CHR 0x81, CHR 0x9F],
     [CHR 0xE3, CHR 0x80, CHR 0x80]]"

fun strip_leading :: "string list \<Rightarrow> string \<Rightarrow> string" where
  "strip_leading codes [] = []"
| "strip_leading codes (c # cs) =
     (if [c] \<in> set codes then strip_leading codes cs
      else if c # take 1 cs \<in> set codes then strip_leading codes (drop 1 cs)
      else if c # take 2 cs \<in> set codes then strip_leading codes (drop 2 cs)
      else c # cs)"

definition strip :: "string \<Rightarrow> string" where
  "strip s =
     rev (strip_leading (map rev whitespace_codes) (rev (strip_leading whitespace_codes s)))"

definition rstrip_char :: "char \<Rightarrow> string \<Rightarrow> string" where
  "rstrip_char c s = rev (dropWhile (\<lambda>x. x = c) (rev s))"

fun split_on :: "char \<Rightarrow> string \<Rightarrow> string list" where
  "split_on c [] = [[]]"
| "split_on c (x # xs) =
     (if x = c then [] # split_on c xs
      else (case split_on c xs of [] \<Rightarrow> [[x]] | y # ys \<Rightarrow> (x # y) # ys))"

function replace :: "string \<Rightarrow> string \<Rightarrow> string \<Rightarrow> string" where
  "replace old new s =
     (if old = [] then new @ concat (map (\<lambda>c. c # new) s)
      else if s = [] then []
      else if take (length old) s = old then new @ replace old new (drop (length old) s)
      else hd s # replace old new (tl s))"
  by pat_completeness auto
termination
  by (relation "measure (\<lambda>(old, new, s). length s)") (auto simp: neq_Nil_conv)

declare replace.simps [simp del]

definition join :: "string \<Rightarrow> string list \<Rightarrow> string" where
  "join sep xs = (case xs of [] \<Rightarrow> [] | y # ys \<Rightarrow> y @ concat (map (\<lambda>z. sep @ z) ys))"

definition hex_char :: "nat \<Rightarrow> char" where
  "hex_char d = (if d < 10 then char_of (48 + d) else char_of (55 + d))"

definition always_safe :: "char \<Rightarrow> bool" where
  "always_safe c =
     (let n = (of_char c :: nat)
      in (48 \<le> n \<and> n \<le> 57) \<or> (65 \<le> n \<and> n \<le> 90) \<or> (97 \<le> n \<and> n \<le> 122)
         \<or> c = CHR ''_'' \<or> c = CHR ''.'' \<or> c = CHR ''-'' \<or> c = CHR ''~'')"

definition quote_plus :: "string \<Rightarrow> string" where
  "quote_plus s =
     concat (map (\<lambda>c. if c = CHR '' '' then ''+''
                       else if always_safe c then [c]
                       else [CHR ''%'', hex_char (of_char c div 16), hex_char (of_char c mod 16)]) s)"

text \<open>
  \<^verbatim>\<open>urlencode(query, doseq=True)\<close>: a string value gives one pair, a value with a
  length (list, or dict through its keys) one pair per element, anything else one pair
  of its \<^verbatim>\<open>str\<close>.
\<close>

fun urlencode_pairs :: "pylib \<Rightarrow> string \<times> json \<Rightarrow> string list" where
  "urlencode_pairs L (k, JStr s) = [quote_plus k @ ''='' @ quote_plus s]"
| "urlencode_pairs L (k, JArr xs) = map (\<lambda>x. quote_plus k @ ''='' @ quote_plus (py_str L x)) xs"
| "urlencode_pairs L (k, JObj kvs) = map (\<lambda>x. quote_plus k @ ''='' @ quote_plus (fst x)) kvs"
| "urlencode_pairs L (k, v) = [quote_plus k @ ''='' @ quote_plus (py_str L v)]"

definition urlencode :: "pylib \<Rightarrow> dict \<Rightarrow> string" where
  "urlencode L q = join ''&'' (concat (map (urlencode_pairs L) q))"

text \<open>\<^verbatim>\<open>d[k] = v\<close>: an existing key keeps its place, a new key goes last.\<close>

fun dict_set :: "'k \<Rightarrow> 'v \<Rightarrow> ('k \<times> 'v) list \<Rightarrow> ('k \<times> 'v) list" where
  "dict_set k v [] = [(k, v)]"
| "dict_set k v (p # ps) = (if fst p = k then (k, v) # ps else p # dict_set k v ps)"

text \<open>\<^verbatim>\<open>xs[a:b]\<close> with Python's clamping and counting from the end for negative bounds.\<close>

definition slice_bound :: "nat \<Rightarrow> int \<Rightarrow> nat" where
  "slice_bound n i = (if i < 0 then nat (max (int n + i) 0) else min (nat i) n)"

definition py_slice :: "'a list \<Rightarrow> int \<Rightarrow> int \<Rightarrow> 'a list" where
  "py_slice xs a b =
     (let lo = slice_bound (length xs) a; hi = slice_bound (length xs) b
      in take (hi - lo) (drop lo xs))"

section \<open>The contract model\<close>

text \<open>
  A parsed parameter (\<^verbatim>\<open>param_info\<close>), a request-body property, and an endpoint
  definition. The keys the code reads with \<^verbatim>\<open>.get\<close> hold \<open>JNull\<close> when absent. Of a
  body schema the code reads \<^verbatim>\<open>properties\<close> and \<^verbatim>\<open>required\<close> only, each empty when
  missing, so a schema without properties behaves like an empty or missing schema
  wherever the code tests \<^verbatim>\<open>if endpoint.get("request_body_schema")\<close>.
\<close>

record param =
  p_name :: string
  p_in :: string
  p_required :: bool
  p_description :: string
  p_example :: json
  p_default :: json
  p_type :: json
  p_enum :: "json list option"

record body_prop =
  pr_description :: "string option"
  pr_type :: "json option"
  pr_example :: json
  pr_default :: json
  pr_enum :: "json list option"

record body_schema =
  bs_properties :: "(string \<times> body_prop) list"
  bs_required :: "string list"

record response_schema =
  rs_description :: string
  rs_schema :: "json option"

record endpoint =
  e_group :: string
  e_path :: string
  e_method :: string
  e_tags :: "string list"
  e_summary :: string
  e_operation_id :: string
  e_params :: "param list"
  e_request_body_schema :: "body_schema option"
  e_response_schemas :: "(string \<times> response_schema) list"
  e_service_name :: "string option"
  e_base_url :: "string option"

subsection \<open>Contract Parser: \<^verbatim>\<open>parse_endpoints\<close>\<close>

text \<open>
  The raw operation objects of the document. An \<open>option\<close> field is a key that may be
  missing; \<open>raw_example\<close> and \<open>sch_example\<close> keep the difference between a missing key
  and a key holding \<^verbatim>\<open>null\<close>, which \<^verbatim>\<open>"example" in p\<close> observes. In
  \<open>op_request_body_json\<close> the outer option says whether the request body has
  \<^verbatim>\<open>application/json\<close> content, the inner one whether that content has a schema.
\<close>

record raw_param_schema =
  sch_type :: "json option"
  sch_default :: json
  sch_enum :: "json list option"
  sch_example :: "json option"

record raw_param =
  raw_name :: "string option"
  raw_in :: "string option"
  raw_required :: "bool option"
  raw_description :: "string option"
  raw_example :: "json option"
  raw_schema :: "raw_param_schema option"

record raw_response =
  rr_description :: "string option"
  rr_json_content :: "json option option"

record operation =
  op_tags :: "string list option"
  op_summary :: "string option"
  op_operation_id :: "string option"
  op_parameters :: "raw_param list option"
  op_responses :: "(string \<times> raw_response) list option"
  op_request_body_json :: "body_schema option option"

definition type_defaults :: "(string \<times> string) list" where
  "type_defaults =
     [(''string'', ''test''), (''integer'', ''1''), (''number'', ''1.0''),
      (''boolean'', ''true''), (''array'', ''test'')]"

definition body_type_defaults :: "(string \<times> string) list" where
  "body_type_defaults =
     [(''string'', ''test''), (''integer'', ''1''), (''number'', ''1.0''), (''boolean'', ''true'')]"

definition get_or :: "'a \<Rightarrow> 'a option \<Rightarrow> 'a" where
  "get_or d x = (case x of None \<Rightarrow> d | Some v \<Rightarrow> v)"

definition empty_schema :: raw_param_schema where
  "empty_schema = \<lparr>sch_type = None, sch_default = JNull, sch_enum = None, sch_example = None\<rparr>"

definition enum_truthy :: "json list option \<Rightarrow> bool" where
  "enum_truthy e = (case e of None \<Rightarrow> False | Some xs \<Rightarrow> xs \<noteq> [])"

text \<open>
  \<^verbatim>\<open>type_defaults.get(ty, "test")\<close> hashes \<open>ty\<close>: a list or a dictionary is unhashable
  and raises \<open>TypeError\<close>; anything else that is not one of the table's strings gives
  \<open>test\<close>.
\<close>

fun unhashable :: "json \<Rightarrow> bool" where
  "unhashable (JArr xs) = True"
| "unhashable (JObj kvs) = True"
| "unhashable v = False"

definition type_default :: "(string \<times> string) list \<Rightarrow> json \<Rightarrow> py_error + string" where
  "type_default table ty =
     (if unhashable ty then Inl TypeError
      else (case ty of
              JStr t \<Rightarrow> Inr (get_or ''test'' (map_of table t))
            | _ \<Rightarrow> Inr ''test''))"

definition parse_param :: "raw_param \<Rightarrow> py_error + param" where
  "parse_param p =
     (let schema = get_or empty_schema (raw_schema p);
          ty = get_or (JStr ''string'') (sch_type schema);
          dflt = sch_default schema;
          en = sch_enum schema;
          ex = (case raw_example p of Some v \<Rightarrow> Inr v
                | None \<Rightarrow>
                  (case sch_example schema of Some v \<Rightarrow> Inr v
                   | None \<Rightarrow>
                     if dflt \<noteq> JNull then Inr dflt
                     else if enum_truthy en then Inr (hd (the en))
                     else (case type_default type_defaults ty of
                             Inl e \<Rightarrow> Inl e
                           | Inr t \<Rightarrow> Inr (JStr t))))
      in case ex of
           Inl e \<Rightarrow> Inl e
         | Inr example \<Rightarrow>
             Inr \<lparr>p_name = get_or [] (raw_name p),
                  p_in = get_or ''query'' (raw_in p),
                  p_required = get_or False (raw_required p),
                  p_description = get_or [] (raw_description p),
                  p_example = example,
                  p_default = dflt,
                  p_type = ty,
                  p_enum = en\<rparr>)"

definition parse_body_prop :: "string list \<Rightarrow> string \<times> body_prop \<Rightarrow> py_error + param" where
  "parse_body_prop required_fields np =
     (let p_details = snd np;
          ty = get_or (JStr ''string'') (pr_type p_details);
          ex0 = py_or (pr_example p_details) (pr_default p_details);
          ex = (if \<not> py_truthy ex0
                then (case type_default body_type_defaults ty of
                        Inl e \<Rightarrow> Inl e
                      | Inr t \<Rightarrow> Inr (JStr t))
                else Inr ex0)
      in case ex of
           Inl e \<Rightarrow> Inl e
         | Inr example \<Rightarrow>
             Inr \<lparr>p_name = fst np,
                  p_in = ''body'',
                  p_required = (fst np \<in> set required_fields),
                  p_description = get_or [] (pr_description p_details),
                  p_example = example,
                  p_default = pr_default p_details,
                  p_type = ty,
                  p_enum = pr_enum p_details\<rparr>)"

text \<open>A loop that appends one result per item and stops at the first exception.\<close>

fun collect :: "('a \<Rightarrow> py_error + 'b) \<Rightarrow> 'a list \<Rightarrow> py_error + 'b list" where
  "collect f [] = Inr []"
| "collect f (x # xs) =
     (case f x of
        Inl e \<Rightarrow> Inl e
      | Inr y \<Rightarrow> (case collect f xs of Inl e \<Rightarrow> Inl e | Inr ys \<Rightarrow> Inr (y # ys)))"

text \<open>
  The loop over the body's properties: a property whose name is already in \<open>params\<close>
  (a declared parameter, or a body property added before) is skipped.
\<close>

fun add_body_props :: "string list \<Rightarrow> (string \<times> body_prop) list \<Rightarrow> param list
    \<Rightarrow> py_error + param list" where
  "add_body_props required_fields [] params = Inr params"
| "add_body_props required_fields (np # props) params =
     (if \<exists>existing \<in> set params. p_name existing = fst np
      then add_body_props required_fields props params
      else (case parse_body_prop required_fields np of
              Inl e \<Rightarrow> Inl e
            | Inr q \<Rightarrow> add_body_props required_fields props (params @ [q])))"

definition parse_response :: "string \<times> raw_response \<Rightarrow> string \<times> response_schema" where
  "parse_response cr =
     (fst cr, \<lparr>rs_description = get_or [] (rr_description (snd cr)),
               rs_schema = (case rr_json_content (snd cr) of None \<Rightarrow> None
                            | Some s \<Rightarrow> Some (get_or (JObj []) s))\<rparr>)"

fun responses_dict :: "(string \<times> response_schema) list \<Rightarrow> (string \<times> raw_response) list
    \<Rightarrow> (string \<times> response_schema) list" where
  "responses_dict acc [] = acc"
| "responses_dict acc (cr # crs) =
     responses_dict (dict_set (fst cr) (snd (parse_response cr)) acc) crs"

text \<open>What an operation declares: its parameter list and the schema of its JSON body.\<close>

definition declared_parameters :: "operation \<Rightarrow> raw_param list" where
  "declared_parameters details = get_or [] (op_parameters details)"

definition request_body_schema_of :: "operation \<Rightarrow> body_schema option" where
  "request_body_schema_of details =
     (case op_request_body_json details of
        None \<Rightarrow> None
      | Some s \<Rightarrow> Some (get_or \<lparr>bs_properties = [], bs_required = []\<rparr> s))"

definition body_properties :: "operation \<Rightarrow> (string \<times> body_prop) list" where
  "body_properties details =
     (case request_body_schema_of details of None \<Rightarrow> [] | Some sch \<Rightarrow> bs_properties sch)"

definition body_required :: "operation \<Rightarrow> string list" where
  "body_required details =
     (case request_body_schema_of details of None \<Rightarrow> [] | Some sch \<Rightarrow> bs_required sch)"

definition parse_operation :: "pylib \<Rightarrow> string \<Rightarrow> string \<times> string \<times> operation \<Rightarrow> py_error + endpoint" where
  "parse_operation L group_name pmd =
     (let path = fst pmd; details = snd (snd pmd)
      in case collect parse_param (declared_parameters details) of
           Inl e \<Rightarrow> Inl e
         | Inr params \<Rightarrow>
             (let response_schemas = responses_dict [] (get_or [] (op_responses details));
                  request_body_schema = request_body_schema_of details
              in case (case request_body_schema of
                         None \<Rightarrow> Inr params
                       | Some sch \<Rightarrow>
                           if bs_properties sch \<noteq> []
                           then add_body_props (bs_required sch) (bs_properties sch) params
                           else Inr params) of
                   Inl e \<Rightarrow> Inl e
                 | Inr params' \<Rightarrow>
                     Inr \<lparr>e_group = group_name,
                          e_path = path,
                          e_method = str_upper L (fst (snd pmd)),
                          e_tags = get_or [] (op_tags details),
                          e_summary = get_or [] (op_summary details),
                          e_operation_id = get_or [] (op_operation_id details),
                          e_params = params',
                          e_request_body_schema = request_body_schema,
                          e_response_schemas = response_schemas,
                          e_service_name = None,
                          e_base_url = None\<rparr>))"

definition http_methods :: "string list" where
  "http_methods = [''get'', ''post'', ''put'', ''delete'', ''patch'']"

text \<open>
  The (path, method, operation) triples the two loops reach: every method of every
  path whose lower-cased name is one of the five.
\<close>

definition selected_operations :: "pylib \<Rightarrow> (string \<times> (string \<times> operation) list) list
    \<Rightarrow> (string \<times> string \<times> operation) list" where
  "selected_operations L paths =
     concat (map (\<lambda>pm. map (\<lambda>md. (fst pm, md))
                          (filter (\<lambda>md. str_lower L (fst md) \<in> set http_methods) (snd pm)))
                 paths)"

definition parse_endpoints :: "pylib \<Rightarrow> (string \<times> (string \<times> operation) list) list \<Rightarrow> string
    \<Rightarrow> py_error + endpoint list" where
  "parse_endpoints L paths group_name =
     collect (parse_operation L group_name) (selected_operations L paths)"


section \<open>Request Builder: \<^verbatim>\<open>build_test_url\<close>\<close>

text \<open>\<^verbatim>\<open>s and name in s\<close> for an optional set of names.\<close>

definition in_names :: "string \<Rightarrow> string set option \<Rightarrow> bool" where
  "in_names name s = (case s of None \<Rightarrow> False | Some S \<Rightarrow> name \<in> S)"

text \<open>\<^verbatim>\<open>include_params is not None and name not in include_params\<close>.\<close>

definition filtered_out :: "string \<Rightarrow> string list option \<Rightarrow> bool" where
  "filtered_out name include_params =
     (case include_params of None \<Rightarrow> False | Some names \<Rightarrow> name \<notin> set names)"

definition required_fallback :: "pylib \<Rightarrow> param \<Rightarrow> string" where
  "required_fallback L p = py_str L (py_or (p_example p) (py_or (p_default p) (JStr ''test'')))"

text \<open>
  The loop over \<^verbatim>\<open>endpoint["params"]\<close>, on the pair of the path and the query
  dictionary. \<^verbatim>\<open>path.replace(old, val)\<close> raises \<open>TypeError\<close> unless \<open>val\<close> is a string.
\<close>

fun build_params :: "pylib \<Rightarrow> dict option \<Rightarrow> string set option \<Rightarrow> string set option
    \<Rightarrow> string list option \<Rightarrow> param list \<Rightarrow> string \<times> dict \<Rightarrow> py_error + (string \<times> dict)" where
  "build_params L ov sk em inc [] st = Inr st"
| "build_params L ov sk em inc (p # ps) st =
     (let name = p_name p; path = fst st; query_params = snd st
      in if in_names name sk then build_params L ov sk em inc ps st
         else if filtered_out name inc \<and> p_in p \<noteq> ''path'' then build_params L ov sk em inc ps st
         else if p_in p = ''path'' then
           (let val0 = JStr (if py_truthy (p_example p) then py_str L (p_example p) else ''test'');
                val = (case ov of None \<Rightarrow> val0
                       | Some d \<Rightarrow> (case map_of d name of None \<Rightarrow> val0 | Some v \<Rightarrow> v))
            in case val of
                 JStr s \<Rightarrow>
                   build_params L ov sk em inc ps (replace (''{'' @ name @ ''}'') s path, query_params)
               | _ \<Rightarrow> Inl TypeError)
         else if p_in p = ''query'' then
           build_params L ov sk em inc ps
             (path,
              if in_names name em then dict_set name (JStr []) query_params
              else (case ov of
                      Some d \<Rightarrow>
                        (case map_of d name of
                           Some v \<Rightarrow> if v \<noteq> JNull then dict_set name v query_params else query_params
                         | None \<Rightarrow>
                             if p_required p
                             then dict_set name (JStr (required_fallback L p)) query_params
                             else query_params)
                    | None \<Rightarrow>
                        if p_example p \<noteq> JNull
                        then dict_set name (JStr (py_str L (p_example p))) query_params
                        else if p_default p \<noteq> JNull
                        then dict_set name (JStr (py_str L (p_default p))) query_params
                        else query_params))
         else build_params L ov sk em inc ps st)"

definition body_default :: "body_prop \<Rightarrow> json option" where
  "body_default prop =
     (let val = py_or (pr_example prop) (pr_default prop)
      in if val \<noteq> JNull then Some val
         else if pr_type prop = Some (JStr ''string'') then Some (JStr ''test'')
         else if pr_type prop = Some (JStr ''integer'') then Some (JInt 1)
         else None)"

definition set_opt :: "string \<Rightarrow> json option \<Rightarrow> dict \<Rightarrow> dict" where
  "set_opt name v d = (case v of None \<Rightarrow> d | Some x \<Rightarrow> dict_set name x d)"

fun build_body :: "dict option \<Rightarrow> string list option \<Rightarrow> string list
    \<Rightarrow> (string \<times> body_prop) list \<Rightarrow> dict \<Rightarrow> dict" where
  "build_body ov inc required_body_fields [] json_body = json_body"
| "build_body ov inc required_body_fields (np # props) json_body =
     (let name = fst np; prop = snd np
      in if filtered_out name inc then build_body ov inc required_body_fields props json_body
         else build_body ov inc required_body_fields props
           (case ov of
              Some d \<Rightarrow>
                (case map_of d name of
                   Some v \<Rightarrow> if v \<noteq> JNull then dict_set name v json_body else json_body
                 | None \<Rightarrow>
                     if name \<in> set required_body_fields
                     then set_opt name (body_default prop) json_body
                     else json_body)
            | None \<Rightarrow> set_opt name (body_default prop) json_body))"

definition build_test_url :: "pylib \<Rightarrow> string \<Rightarrow> endpoint \<Rightarrow> dict option \<Rightarrow> string set option
    \<Rightarrow> string set option \<Rightarrow> string list option \<Rightarrow> py_error + (string \<times> dict)" where
  "build_test_url L base_url endpoint param_overrides skip_params empty_params include_params =
     (case build_params L param_overrides skip_params empty_params include_params
             (e_params endpoint) (e_path endpoint, []) of
        Inl e \<Rightarrow> Inl e
      | Inr pq \<Rightarrow>
          (let full_url = rstrip_char CHR ''/'' base_url @ fst pq;
               full_url' = (if snd pq \<noteq> [] then full_url @ ''?'' @ urlencode L (snd pq) else full_url);
               json_body = (case e_request_body_schema endpoint of
                              None \<Rightarrow> []
                            | Some schema \<Rightarrow>
                                build_body param_overrides include_params (bs_required schema)
                                  (bs_properties schema) [])
           in Inr (full_url', json_body)))"

section \<open>HTTP Probe: \<^verbatim>\<open>call_endpoint\<close>\<close>

text \<open>
  The network is an oracle: given the requests issued so far and the next request, it
  answers with a response or raises. The state threaded through the engine is the log
  of requests issued, oldest first. Console output and \<^verbatim>\<open>time.sleep\<close> are left out.
\<close>

datatype http_verb = GET | POST | PUT | DELETE | PATCH

record http_request =
  rq_verb :: http_verb
  rq_url :: string
  rq_headers :: "(string \<times> string) list option"
  rq_json :: "dict option"
  rq_timeout :: int

record http_response =
  resp_status_code :: int
  resp_elapsed_ms :: rat
  resp_headers :: "(string \<times> string) list"
  resp_request_headers :: "(string \<times> string) list"
  resp_request_url :: string
  resp_request_method :: string
  resp_request_body :: "string option"
  resp_json :: "py_error + json"
  resp_text :: string

type_synonym world = "http_request list"

type_synonym network = "world \<Rightarrow> http_request \<Rightarrow> py_error + http_response"

record probe_result =
  res_url :: string
  res_method :: string
  res_status_code :: "int option"
  res_response_time_ms :: "rat option"
  res_is_json :: bool
  res_json_body :: json
  res_body_preview :: "string option"
  res_error :: "string option"
  res_response_headers :: "(string \<times> string) list option"
  res_request_headers :: "(string \<times> string) list option"
  res_request_url :: "string option"
  res_request_method :: "string option"
  res_request_body :: "string option option"
  res_body_full :: "string option"
  res_schema_validation :: "string option"
  res_param :: "string option"
  res_value :: "json option"

definition is_connection_error :: "py_error \<Rightarrow> bool" where
  "is_connection_error e = (e = ConnectionError \<or> e = ConnectTimeout)"

definition is_timeout :: "py_error \<Rightarrow> bool" where
  "is_timeout e = (e = Timeout \<or> e = ConnectTimeout)"

fun is_request_exception :: "py_error \<Rightarrow> bool" where
  "is_request_exception ConnectionError = True"
| "is_request_exception ConnectTimeout = True"
| "is_request_exception Timeout = True"
| "is_request_exception (RequestException m) = True"
| "is_request_exception e = False"

fun exception_str :: "py_error \<Rightarrow> string" where
  "exception_str (RequestException m) = m"
| "exception_str e = []"

text \<open>The method dispatch: which \<^verbatim>\<open>requests\<close> call is made for a method string.\<close>

definition dispatch :: "string \<Rightarrow> string \<Rightarrow> (string \<times> string) list option \<Rightarrow> dict option \<Rightarrow> int
    \<Rightarrow> http_request" where
  "dispatch url method headers json_body timeout =
     (let plain = \<lparr>rq_verb = GET, rq_url = url, rq_headers = headers, rq_json = None,
                   rq_timeout = timeout\<rparr>;
          with_body = plain\<lparr>rq_json := Some (get_or [] json_body)\<rparr>
      in if method = ''GET'' then plain
         else if method = ''POST'' then with_body\<lparr>rq_verb := POST\<rparr>
         else if method = ''PUT'' then with_body\<lparr>rq_verb := PUT\<rparr>
         else if method = ''DELETE'' then plain\<lparr>rq_verb := DELETE\<rparr>
         else if method = ''PATCH'' then with_body\<lparr>rq_verb := PATCH\<rparr>
         else plain)"

definition initial_result :: "string \<Rightarrow> string \<Rightarrow> probe_result" where
  "initial_result url method =
     \<lparr>res_url = url, res_method = method, res_status_code = None, res_response_time_ms = None,
      res_is_json = False, res_json_body = JNull, res_body_preview = None, res_error = None,
      res_response_headers = None, res_request_headers = None, res_request_url = None,
      res_request_method = None, res_request_body = None, res_body_full = None,
      res_schema_validation = None, res_param = None, res_value = None\<rparr>"

text \<open>
  The body of the \<^verbatim>\<open>try\<close> after the response has arrived. \<open>resp_json\<close> is the outcome
  of \<^verbatim>\<open>resp.json()\<close>: the decoded body or the exception raised. The inner handler
  catches \<open>ValueError\<close>; any other exception leaves the inner \<^verbatim>\<open>try\<close> and comes back
  with the result dictionary as it has been written so far, for the outer handlers.
\<close>

definition record_response :: "pylib \<Rightarrow> probe_result \<Rightarrow> http_response
    \<Rightarrow> (py_error \<times> probe_result) + probe_result" where
  "record_response L result resp =
     (let r = result\<lparr>res_status_code := Some (resp_status_code resp),
                     res_response_time_ms := Some (resp_elapsed_ms resp),
                     res_response_headers := Some (resp_headers resp),
                     res_request_headers := Some (resp_request_headers resp),
                     res_request_url := Some (resp_request_url resp),
                     res_request_method := Some (resp_request_method resp),
                     res_request_body := Some (resp_request_body resp)\<rparr>;
          raw_text = (\<lambda>r0. r0\<lparr>res_is_json := False,
                               res_body_preview := Some (py_take 1000 (resp_text resp)),
                               res_body_full := Some (resp_text resp)\<rparr>)
      in case resp_json resp of
           Inl e \<Rightarrow> if e = ValueError then Inr (raw_text r) else Inl (e, r)
         | Inr j \<Rightarrow>
             (let r1 = r\<lparr>res_json_body := j, res_is_json := True\<rparr>
              in case json_dumps L j of
                   Inl e \<Rightarrow> if e = ValueError then Inr (raw_text r1) else Inl (e, r1)
                 | Inr body_str \<Rightarrow>
                     Inr (r1\<lparr>res_body_preview :=
                               Some (py_take 2000 body_str
                                     @ (if py_len body_str > 2000 then ''...'' else [])),
                             res_body_full := Some body_str\<rparr>)))"

text \<open>
  The three \<^verbatim>\<open>except\<close> clauses, in the source's order; an exception none of them
  matches propagates.
\<close>

definition handle_transport :: "probe_result \<Rightarrow> int \<Rightarrow> py_error \<Rightarrow> py_error + probe_result" where
  "handle_transport result timeout e =
     (if is_connection_error e then Inr (result\<lparr>res_error := Some ''Connection refused or DNS failure''\<rparr>)
      else if is_timeout e then Inr (result\<lparr>res_error := Some (''Timed out (>'' @ show_int timeout @ ''s)'')\<rparr>)
      else if is_request_exception e then Inr (result\<lparr>res_error := Some (exception_str e)\<rparr>)
      else Inl e)"

definition call_endpoint :: "pylib \<Rightarrow> network \<Rightarrow> string \<Rightarrow> string \<Rightarrow> (string \<times> string) list option
    \<Rightarrow> dict option \<Rightarrow> int \<Rightarrow> world \<Rightarrow> (py_error + probe_result) \<times> world" where
  "call_endpoint L net url method headers json_body timeout w =
     (let result = initial_result url method;
          req = dispatch url method headers json_body timeout
      in (case net w req of
            Inr resp \<Rightarrow>
              (case record_response L result resp of
                 Inr r \<Rightarrow> Inr r
               | Inl er \<Rightarrow> handle_transport (snd er) timeout (fst er))
          | Inl e \<Rightarrow> handle_transport result timeout e,
          w @ [req]))"


section \<open>Running probes: state and exceptions\<close>

text \<open>
  A computation of the engine takes the request log and returns either the exception
  that left it or its value, with the log as it then stands.
\<close>

type_synonym 'a run = "world \<Rightarrow> (py_error + 'a) \<times> world"

definition ret :: "'a \<Rightarrow> 'a run" where
  "ret x w = (Inr x, w)"

definition lift :: "py_error + 'a \<Rightarrow> 'a run" where
  "lift r w = (r, w)"

definition bind :: "'a run \<Rightarrow> ('a \<Rightarrow> 'b run) \<Rightarrow> 'b run" where
  "bind m f w = (case m w of (Inl e, w') \<Rightarrow> (Inl e, w') | (Inr x, w') \<Rightarrow> f x w')"

fun for_each :: "('a \<Rightarrow> 'b run) \<Rightarrow> 'a list \<Rightarrow> 'b list run" where
  "for_each f [] = ret []"
| "for_each f (x # xs) = bind (f x) (\<lambda>y. bind (for_each f xs) (\<lambda>ys. ret (y # ys)))"

record config =
  cfg_timeout_seconds :: int
  cfg_response_time_limit_ms :: rat
  cfg_swagger_base_url :: "string option"
  cfg_auth_type :: "string option"
  cfg_auth_header :: "string option"
  cfg_gemini_api_key :: string

text \<open>\<^verbatim>\<open>build_test_url\<close> followed by \<^verbatim>\<open>call_endpoint\<close> on what it built.\<close>

definition build_and_call :: "pylib \<Rightarrow> network \<Rightarrow> config \<Rightarrow> string \<Rightarrow> endpoint \<Rightarrow> dict option
    \<Rightarrow> string set option \<Rightarrow> string set option \<Rightarrow> string list option \<Rightarrow> string
    \<Rightarrow> (string \<times> string) list option \<Rightarrow> ((string \<times> dict) \<times> probe_result) run" where
  "build_and_call L net cfg base_url endpoint ov sk em inc method headers =
     bind (lift (build_test_url L base_url endpoint ov sk em inc))
       (\<lambda>ub. bind (call_endpoint L net (fst ub) method headers (Some (snd ub)) (cfg_timeout_seconds cfg))
          (\<lambda>res. ret (ub, res)))"

section \<open>Test phases\<close>

definition validate_schema :: "json \<Rightarrow> json \<Rightarrow> py_error + string" where
  "validate_schema response_json schema_info =
     (if \<not> py_truthy schema_info then Inr ''N/A''
      else case schema_info of
        JObj kvs \<Rightarrow>
          (let expected_type = get_or JNull (map_of kvs ''type'')
           in if \<not> py_truthy expected_type then Inr ''N/A''
              else if expected_type = JStr ''array'' \<and> (case response_json of JArr _ \<Rightarrow> False | _ \<Rightarrow> True)
                then Inr ''FAIL: Expected array, got object''
              else if expected_type = JStr ''object'' \<and> (case response_json of JObj _ \<Rightarrow> False | _ \<Rightarrow> True)
                then Inr ''FAIL: Expected object, got list/primitive''
              else if expected_type = JStr ''integer''
                      \<and> (case response_json of JInt _ \<Rightarrow> False | JBool _ \<Rightarrow> False | _ \<Rightarrow> True)
                then Inr ''FAIL: Expected integer''
              else if expected_type = JStr ''string'' \<and> (case response_json of JStr _ \<Rightarrow> False | _ \<Rightarrow> True)
                then Inr ''FAIL: Expected string''
              else Inr ''PASS'')
      | _ \<Rightarrow> Inl AttributeError)"

definition run_baseline :: "pylib \<Rightarrow> network \<Rightarrow> string \<Rightarrow> string \<Rightarrow> (string \<times> string) list option
    \<Rightarrow> config \<Rightarrow> dict option \<Rightarrow> endpoint \<Rightarrow> probe_result run" where
  "run_baseline L net url method headers cfg json_body endpoint_def =
     bind (call_endpoint L net url method headers json_body (cfg_timeout_seconds cfg))
       (\<lambda>result.
          bind (lift
                 (if res_is_json result \<and> res_status_code result = Some 200
                  then (let ok_schema =
                              (case map_of (e_response_schemas endpoint_def) ''200'' of
                                 None \<Rightarrow> JNull
                               | Some rs \<Rightarrow> get_or JNull (rs_schema rs))
                        in if py_truthy ok_schema
                           then validate_schema (res_json_body result) ok_schema
                           else Inr ''N/A'')
                  else Inr ''N/A''))
            (\<lambda>schema_status. ret (result\<lparr>res_schema_validation := Some schema_status\<rparr>)))"

definition run_auth_check :: "pylib \<Rightarrow> network \<Rightarrow> string \<Rightarrow> string \<Rightarrow> config \<Rightarrow> probe_result run" where
  "run_auth_check L net url method cfg =
     call_endpoint L net url method (Some []) None (cfg_timeout_seconds cfg)"

record param_result =
  prm_param :: string
  prm_required_by_spec :: bool
  prm_required_by_test :: bool
  prm_status_without :: "int option"

text \<open>The query parameters and the body properties, as (name, required) pairs.\<close>

definition query_and_body_params :: "endpoint \<Rightarrow> (string \<times> bool) list" where
  "query_and_body_params endpoint =
     map (\<lambda>p. (p_name p, p_required p)) (filter (\<lambda>p. p_in p = ''query'') (e_params endpoint))
     @ (case e_request_body_schema endpoint of
          None \<Rightarrow> []
        | Some schema \<Rightarrow> map (\<lambda>np. (fst np, fst np \<in> set (bs_required schema))) (bs_properties schema))"

definition run_param_removal :: "pylib \<Rightarrow> network \<Rightarrow> endpoint \<Rightarrow> string \<Rightarrow> (string \<times> string) list option
    \<Rightarrow> config \<Rightarrow> dict option \<Rightarrow> string list option \<Rightarrow> param_result list run" where
  "run_param_removal L net endpoint base_url headers cfg base_overrides include_params =
     for_each
       (\<lambda>p. bind (build_and_call L net cfg base_url endpoint base_overrides (Some {fst p}) None
                     include_params (e_method endpoint) headers)
               (\<lambda>r. let result = snd r;
                         is_required = (res_status_code result \<noteq> Some 200 \<or> res_error result \<noteq> None)
                     in ret \<lparr>prm_param = fst p, prm_required_by_spec = snd p,
                             prm_required_by_test = is_required,
                             prm_status_without = res_status_code result\<rparr>))
       (filter (\<lambda>p. \<not> filtered_out (fst p) include_params) (query_and_body_params endpoint))"

record empty_result =
  emp_param :: string
  emp_status_empty :: "int option"
  emp_graceful :: bool

definition status_in :: "int option \<Rightarrow> int list \<Rightarrow> bool" where
  "status_in sc codes = (case sc of None \<Rightarrow> False | Some c \<Rightarrow> c \<in> set codes)"

definition run_empty_values :: "pylib \<Rightarrow> network \<Rightarrow> endpoint \<Rightarrow> string \<Rightarrow> (string \<times> string) list option
    \<Rightarrow> config \<Rightarrow> dict option \<Rightarrow> string list option \<Rightarrow> empty_result list run" where
  "run_empty_values L net endpoint base_url headers cfg base_overrides include_params =
     for_each
       (\<lambda>p. bind (build_and_call L net cfg base_url endpoint base_overrides None (Some {fst p})
                     include_params (e_method endpoint) headers)
               (\<lambda>r. let result = snd r
                     in ret \<lparr>emp_param = fst p, emp_status_empty = res_status_code result,
                             emp_graceful = status_in (res_status_code result) [200, 400, 422]\<rparr>))
       (filter (\<lambda>p. \<not> filtered_out (fst p) include_params) (query_and_body_params endpoint))"

record negative_result =
  neg_test :: string
  neg_status_code :: "int option"
  neg_passed :: bool
  neg_response :: "string option"

definition run_negative_tests :: "pylib \<Rightarrow> network \<Rightarrow> endpoint \<Rightarrow> string \<Rightarrow> (string \<times> string) list option
    \<Rightarrow> config \<Rightarrow> negative_result list run" where
  "run_negative_tests L net endpoint base_url headers cfg =
     (let bad_method = (if e_method endpoint = ''GET'' then ''DELETE'' else ''PATCH'')
      in bind (build_and_call L net cfg base_url endpoint None None None None bad_method headers)
           (\<lambda>r. let result = snd r
                 in ret [\<lparr>neg_test = ''Invalid Method ('' @ bad_method @ '')'',
                          neg_status_code = res_status_code result,
                          neg_passed = status_in (res_status_code result) [405, 403, 404, 501],
                          neg_response = res_body_preview result\<rparr>]))"

record fuzz_result =
  fz_param :: string
  fz_value :: string
  fz_status_code :: "int option"
  fz_result :: string
  fz_response_preview :: "string option"

definition fuzz_values :: "string list" where
  "fuzz_values = [''null'', ''undefined'', ''NaN'', ''0'', ''-1'', ''999999999'', ''INVALID_PATH'']"

definition run_path_fuzzing :: "pylib \<Rightarrow> network \<Rightarrow> endpoint \<Rightarrow> string \<Rightarrow> (string \<times> string) list option
    \<Rightarrow> config \<Rightarrow> dict option \<Rightarrow> fuzz_result list run" where
  "run_path_fuzzing L net endpoint base_url headers cfg base_overrides =
     for_each
       (\<lambda>pv. let overrides = dict_set (p_name (fst pv)) (JStr (snd pv)) (get_or [] base_overrides)
              in bind (build_and_call L net cfg base_url endpoint (Some overrides) None None None
                         (e_method endpoint) headers)
                   (\<lambda>r. let res = snd r;
                             status = (if res_status_code res = Some 200 then ''WARN (200 OK?)''
                                       else if status_in (res_status_code res) [404, 400, 422] then ''PASS''
                                       else ''FAIL'')
                         in ret \<lparr>fz_param = p_name (fst pv), fz_value = snd pv,
                                 fz_status_code = res_status_code res, fz_result = status,
                                 fz_response_preview = res_body_preview res\<rparr>))
       (concat (map (\<lambda>p. map (\<lambda>v. (p, v)) fuzz_values)
                    (filter (\<lambda>p. p_in p = ''path'') (e_params endpoint))))"

record enum_result =
  en_param :: string
  en_value :: string
  en_status_code :: "int option"
  en_passed :: bool
  en_response :: "string option"

definition run_enum_testing :: "pylib \<Rightarrow> network \<Rightarrow> endpoint \<Rightarrow> string \<Rightarrow> (string \<times> string) list option
    \<Rightarrow> config \<Rightarrow> dict option \<Rightarrow> enum_result list run" where
  "run_enum_testing L net endpoint base_url headers cfg base_overrides =
     for_each
       (\<lambda>p. let invalid_val = ''INVALID_ENUM_VALUE'';
                 overrides = dict_set (p_name p) (JStr invalid_val) (get_or [] base_overrides)
             in bind (build_and_call L net cfg base_url endpoint (Some overrides) None None None
                        (e_method endpoint) headers)
                  (\<lambda>r. let res = snd r
                        in ret \<lparr>en_param = p_name p, en_value = invalid_val,
                                en_status_code = res_status_code res,
                                en_passed = status_in (res_status_code res) [400, 422],
                                en_response = res_body_preview res\<rparr>))
       (filter (\<lambda>p. enum_truthy (p_enum p)) (e_params endpoint))"


section \<open>Value Pool Builder and Combination Generator: \<^verbatim>\<open>run_combinatorial_tests\<close>\<close>

text \<open>
  \<^verbatim>\<open>all_samples\<close> of one parameter: the front-end's sample text (split at commas and
  stripped when it has a comma), the fuzz value, and both booleans for a boolean
  parameter.
\<close>

definition all_samples :: "pylib \<Rightarrow> dict option \<Rightarrow> dict option \<Rightarrow> param \<Rightarrow> string list" where
  "all_samples L base_overrides random_overrides p =
     (let name = p_name p;
          ui_val = get_or (JStr []) (map_of (get_or [] base_overrides) name);
          s1 = (if py_truthy ui_val
                then (if CHR '','' \<in> set (py_str L ui_val)
                      then map strip (split_on CHR '','' (py_str L ui_val))
                      else [py_str L ui_val])
                else []);
          fuzz_val = get_or JNull (map_of (get_or [] random_overrides) name);
          s2 = (if py_truthy fuzz_val then s1 @ [py_str L fuzz_val] else s1);
          s3 = (if p_type p = JStr ''boolean'' \<and> ''true'' \<notin> set (map (str_lower L) s2)
                then s2 @ [''true''] else s2);
          s4 = (if p_type p = JStr ''boolean'' \<and> ''false'' \<notin> set (map (str_lower L) s3)
                then s3 @ [''false''] else s3)
      in s4)"

text \<open>\<^verbatim>\<open>itertools.combinations(xs, k)\<close>: the k-element selections, by position.\<close>

fun combinations :: "'a list \<Rightarrow> nat \<Rightarrow> 'a list list" where
  "combinations xs 0 = [[]]"
| "combinations [] (Suc k) = []"
| "combinations (x # xs) (Suc k) = map ((#) x) (combinations xs k) @ combinations xs (Suc k)"

definition candidates :: "bool \<Rightarrow> string list \<Rightarrow> json list" where
  "candidates multi samples =
     (if multi
      then concat (map (\<lambda>i. map (\<lambda>combo. JArr (map JStr combo)) (combinations samples i))
                       [1 ..< length samples + 1])
      else map JStr samples)"

text \<open>The order-keeping deduplication loop (\<^verbatim>\<open>if c not in seen: seen.append(c)\<close>).\<close>

definition dedup :: "'a list \<Rightarrow> 'a list" where
  "dedup cs = fold (\<lambda>c seen. if c \<in> set seen then seen else seen @ [c]) cs []"

definition example_or_default :: "pylib \<Rightarrow> param \<Rightarrow> string" where
  "example_or_default L p = py_str L (py_or (p_example p) (py_or (p_default p) (JStr ''test'')))"

text \<open>The pool of one parameter; \<open>JNull\<close> is the absence sentinel.\<close>

definition value_pool :: "pylib \<Rightarrow> dict option \<Rightarrow> dict option \<Rightarrow> string list \<Rightarrow> string list
    \<Rightarrow> param \<Rightarrow> json list" where
  "value_pool L base_overrides random_overrides multi_params include_params p =
     (if p_name p \<notin> set include_params
      then (if p_required p then [JStr (example_or_default L p)] else [JNull])
      else
        (let seen = dedup (candidates (p_name p \<in> set multi_params)
                             (all_samples L base_overrides random_overrides p))
         in if seen \<noteq> []
            then (if \<not> p_required p \<and> JNull \<notin> set seen then seen @ [JNull] else seen)
            else (if p_required p then [JStr (example_or_default L p), JNull] else [JNull])))"

text \<open>
  The first loop of the function: \<^verbatim>\<open>parameter_pools\<close> and \<^verbatim>\<open>baseline_values\<close>, both
  written once per parameter, the baseline being the pool's element at index 0.
\<close>

fun build_pools :: "pylib \<Rightarrow> dict option \<Rightarrow> dict option \<Rightarrow> string list \<Rightarrow> string list
    \<Rightarrow> param list \<Rightarrow> (string \<times> json list) list \<times> dict \<Rightarrow> (string \<times> json list) list \<times> dict" where
  "build_pools L bo ro multi inc [] st = st"
| "build_pools L bo ro multi inc (p # ps) st =
     (let pool = value_pool L bo ro multi inc p
      in build_pools L bo ro multi inc ps
           (dict_set (p_name p) pool (fst st), dict_set (p_name p) (hd pool) (snd st)))"

text \<open>\<^verbatim>\<open>[parameter_pools[name] for name in main_pool_names]\<close>: a missing name raises.\<close>

fun lookup_pools :: "(string \<times> json list) list \<Rightarrow> string list \<Rightarrow> py_error + json list list" where
  "lookup_pools pools [] = Inr []"
| "lookup_pools pools (n # ns) =
     (case map_of pools n of
        None \<Rightarrow> Inl KeyError
      | Some pool \<Rightarrow> (case lookup_pools pools ns of Inl e \<Rightarrow> Inl e | Inr rest \<Rightarrow> Inr (pool # rest)))"

definition assign :: "string list \<Rightarrow> json list \<Rightarrow> dict \<Rightarrow> dict" where
  "assign names combo d = fold (\<lambda>nv. dict_set (fst nv) (snd nv)) (zip names combo) d"

definition main_combos :: "string list \<Rightarrow> json list list \<Rightarrow> dict \<Rightarrow> dict list" where
  "main_combos main_pool_names main_pools baseline_values =
     map (\<lambda>combo. assign main_pool_names combo baseline_values) (product_lists main_pools)"

fun isolated_combos :: "(string \<times> json list) list \<Rightarrow> dict \<Rightarrow> string list \<Rightarrow> py_error + dict list" where
  "isolated_combos pools baseline_values [] = Inr []"
| "isolated_combos pools baseline_values (name # names) =
     (case map_of pools name of
        None \<Rightarrow> isolated_combos pools baseline_values names
      | Some full_pool \<Rightarrow>
          (case map_of baseline_values name of
             None \<Rightarrow> Inl KeyError
           | Some baseline_v \<Rightarrow>
               (case isolated_combos pools baseline_values names of
                  Inl e \<Rightarrow> Inl e
                | Inr rest \<Rightarrow>
                    Inr (map (\<lambda>val. dict_set name val baseline_values)
                             (filter (\<lambda>val. val \<noteq> baseline_v) full_pool) @ rest))))"

text \<open>
  \<^verbatim>\<open>all_combos_dicts\<close>: the product of the main pools, then the isolated sweeps, for
  an endpoint whose parameter list is not empty.
\<close>

definition effective_include :: "endpoint \<Rightarrow> string list option \<Rightarrow> string list" where
  "effective_include endpoint include_params =
     (case include_params of
        None \<Rightarrow> map p_name (e_params endpoint)
      | Some names \<Rightarrow> if names = [] then map p_name (e_params endpoint) else names)"

definition pools_of :: "pylib \<Rightarrow> endpoint \<Rightarrow> dict option \<Rightarrow> dict option \<Rightarrow> string list option
    \<Rightarrow> string list option \<Rightarrow> (string \<times> json list) list \<times> dict" where
  "pools_of L endpoint base_overrides random_overrides multi_params include_params =
     build_pools L base_overrides random_overrides (get_or [] multi_params)
       (effective_include endpoint include_params) (e_params endpoint) ([], [])"

definition main_pool_names :: "endpoint \<Rightarrow> string list option \<Rightarrow> string list option \<Rightarrow> string list" where
  "main_pool_names endpoint include_params isolated_params =
     filter (\<lambda>name. name \<notin> set (get_or [] isolated_params)) (effective_include endpoint include_params)"

definition all_combos_dicts :: "pylib \<Rightarrow> endpoint \<Rightarrow> dict option \<Rightarrow> dict option \<Rightarrow> string list option
    \<Rightarrow> string list option \<Rightarrow> string list option \<Rightarrow> py_error + dict list" where
  "all_combos_dicts L endpoint base_overrides random_overrides multi_params include_params isolated_params =
     (let pb = pools_of L endpoint base_overrides random_overrides multi_params include_params;
          names = main_pool_names endpoint include_params isolated_params
      in case lookup_pools (fst pb) names of
           Inl e \<Rightarrow> Inl e
         | Inr main_pools \<Rightarrow>
             (case isolated_combos (fst pb) (snd pb) (get_or [] isolated_params) of
                Inl e \<Rightarrow> Inl e
              | Inr sweeps \<Rightarrow> Inr (main_combos names main_pools (snd pb) @ sweeps)))"

definition subset :: "string \<Rightarrow> int \<Rightarrow> int \<Rightarrow> 'a list \<Rightarrow> 'a list" where
  "subset mode offset limit combos =
     (if mode = ''minimal'' then py_slice combos 0 1 else py_slice combos offset (offset + limit))"

record comb_result =
  cr_combination :: string
  cr_status_code :: "int option"
  cr_passed :: bool
  cr_body_preview :: "string option"
  cr_request_url :: string
  cr_request_body :: dict
  cr_params_used :: dict

record comb_output =
  co_results :: "comb_result list"
  co_total_count :: nat
  co_offset :: int
  co_limit :: int

text \<open>The display name of a combination: the included parameters that leave the baseline.\<close>

fun strings_of :: "json list \<Rightarrow> py_error + string list" where
  "strings_of [] = Inr []"
| "strings_of (JStr s # vs) = (case strings_of vs of Inl e \<Rightarrow> Inl e | Inr ss \<Rightarrow> Inr (s # ss))"
| "strings_of (v # vs) = Inl TypeError"

fun display_parts :: "pylib \<Rightarrow> string list \<Rightarrow> dict \<Rightarrow> dict \<Rightarrow> py_error + string list" where
  "display_parts L include_params baseline_values [] = Inr []"
| "display_parts L include_params baseline_values (nv # rest) =
     (let name = fst nv; val = snd nv
      in if name \<in> set include_params
         then (case map_of baseline_values name of
                 None \<Rightarrow> Inl KeyError
               | Some b \<Rightarrow>
                   if val \<noteq> b
                   then (case (case val of
                                 JArr xs \<Rightarrow>
                                   (case strings_of xs of
                                      Inl e \<Rightarrow> Inl e
                                    | Inr ss \<Rightarrow> Inr (name @ ''=['' @ join '','' ss @ '']''))
                               | _ \<Rightarrow> Inr (name @ ''='' @ py_str L val)) of
                           Inl e \<Rightarrow> Inl e
                         | Inr part \<Rightarrow>
                             (case display_parts L include_params baseline_values rest of
                                Inl e \<Rightarrow> Inl e
                              | Inr parts \<Rightarrow> Inr (part # parts)))
                   else display_parts L include_params baseline_values rest)
         else display_parts L include_params baseline_values rest)"

definition comb_name :: "pylib \<Rightarrow> string list \<Rightarrow> dict \<Rightarrow> dict \<Rightarrow> py_error + string" where
  "comb_name L include_params baseline_values test_params =
     (case display_parts L include_params baseline_values test_params of
        Inl e \<Rightarrow> Inl e
      | Inr parts \<Rightarrow> Inr (if parts \<noteq> [] then join '', '' parts else ''Baseline (+)''))"

text \<open>
  One iteration of the test loop. \<^verbatim>\<open>200 <= res["status_code"] < 300\<close> raises
  \<open>TypeError\<close> when the probe had no status code.
\<close>

definition run_combination :: "pylib \<Rightarrow> network \<Rightarrow> config \<Rightarrow> string \<Rightarrow> endpoint
    \<Rightarrow> (string \<times> string) list option \<Rightarrow> string list \<Rightarrow> dict \<Rightarrow> dict \<Rightarrow> comb_result run" where
  "run_combination L net cfg base_url endpoint headers include_params baseline_values test_params =
     bind (lift (comb_name L include_params baseline_values test_params))
       (\<lambda>cname.
          bind (build_and_call L net cfg base_url endpoint (Some test_params) None None None
                  (e_method endpoint) headers)
            (\<lambda>r. case res_status_code (snd r) of
                    None \<Rightarrow> lift (Inl TypeError)
                  | Some sc \<Rightarrow>
                      ret \<lparr>cr_combination = cname, cr_status_code = Some sc,
                           cr_passed = (200 \<le> sc \<and> sc < 300),
                           cr_body_preview = res_body_preview (snd r),
                           cr_request_url = fst (fst r), cr_request_body = snd (fst r),
                           cr_params_used = test_params\<rparr>))"

definition run_combinatorial_tests :: "pylib \<Rightarrow> network \<Rightarrow> endpoint \<Rightarrow> string
    \<Rightarrow> (string \<times> string) list option \<Rightarrow> config \<Rightarrow> dict option \<Rightarrow> string \<Rightarrow> int \<Rightarrow> int
    \<Rightarrow> string list option \<Rightarrow> string list option \<Rightarrow> dict option \<Rightarrow> string list option
    \<Rightarrow> comb_output run" where
  "run_combinatorial_tests L net endpoint base_url headers cfg base_overrides mode offset limit
       multi_params include_params random_overrides isolated_params =
     (if e_params endpoint = []
      then ret \<lparr>co_results = [], co_total_count = 0, co_offset = 0, co_limit = limit\<rparr>
      else
        bind (lift (all_combos_dicts L endpoint base_overrides random_overrides multi_params
                      include_params isolated_params))
          (\<lambda>combos.
             bind (for_each
                     (run_combination L net cfg base_url endpoint headers
                        (effective_include endpoint include_params)
                        (snd (pools_of L endpoint base_overrides random_overrides multi_params
                                include_params)))
                     (subset mode offset limit combos))
               (\<lambda>results.
                  ret \<lparr>co_results = results, co_total_count = length combos,
                       co_offset = offset, co_limit = limit\<rparr>)))"


section \<open>Heuristic checks and field-selector progression\<close>

fun find_in_json :: "pylib \<Rightarrow> string \<Rightarrow> json \<Rightarrow> bool" where
  "find_in_json L t (JArr xs) =
     (t = str_lower L (py_str L (JArr xs)) \<or> (\<exists>item \<in> set xs. find_in_json L t item))"
| "find_in_json L t (JObj kvs) =
     (t = str_lower L (py_str L (JObj kvs)) \<or> (\<exists>v \<in> set (map snd kvs). find_in_json L t v))"
| "find_in_json L t data = (t = str_lower L (py_str L data))"

fun is_substring :: "string \<Rightarrow> string \<Rightarrow> bool" where
  "is_substring pat [] = (pat = [])"
| "is_substring pat (c # cs) = (take (length pat) (c # cs) = pat \<or> is_substring pat cs)"

definition dict_update :: "dict \<Rightarrow> dict \<Rightarrow> dict" where
  "dict_update d other = fold (\<lambda>kv. dict_set (fst kv) (snd kv)) other d"

definition sensitive_keywords :: "string list" where
  "sensitive_keywords = [''password'', ''secret'', ''api_key'', ''access_token'', ''hash'', ''private_key'']"

definition run_logic_checks :: "pylib \<Rightarrow> probe_result \<Rightarrow> dict option \<Rightarrow> dict \<Rightarrow> string list" where
  "run_logic_checks L baseline_res overrides json_body =
     (if \<not> py_truthy (res_json_body baseline_res) then []
      else
        (let sent_data = dict_update (get_or [] overrides) json_body;
             response_json = res_json_body baseline_res;
             echo = concat (map (\<lambda>kv.
                      if snd kv \<noteq> JNull \<and> py_len (py_str L (snd kv)) > 1
                      then (if find_in_json L (str_lower L (py_str L (snd kv))) response_json
                            then [''Logic: '' @ [CHR 0x60] @ fst kv @ ''='' @ py_str L (snd kv) @ [CHR 0x60]
                                  @ '' correctly ECHOED in response.'']
                            else [''LOGIC WARN: Sent field '' @ [CHR 0x60] @ fst kv @ ''='' @ py_str L (snd kv)
                                  @ [CHR 0x60] @ '' NOT found in response.''])
                      else []) sent_data);
             body_str = str_lower L (get_or [] (res_body_full baseline_res));
             sensitive = concat (map (\<lambda>kw.
                      if is_substring ([CHR 0x22] @ kw @ [CHR 0x22]) body_str
                         \<or> is_substring ([CHR 0x27] @ kw @ [CHR 0x27]) body_str
                      then [''SECURITY: Response contains sensitive keyword '' @ [CHR 0x60] @ kw @ [CHR 0x60] @ ''!'']
                      else []) sensitive_keywords)
         in echo @ sensitive))"

definition selector_keywords :: "string list" where
  "selector_keywords = [''fields'', ''select'', ''required_fields'', ''include'', ''exclude'']"

definition find_field_selectors :: "pylib \<Rightarrow> endpoint \<Rightarrow> param list" where
  "find_field_selectors L endpoint =
     filter (\<lambda>p. \<exists>k \<in> set selector_keywords. is_substring k (str_lower L (p_name p)))
       (e_params endpoint)"

fun get_keys :: "json \<Rightarrow> string list" where
  "get_keys (JObj kvs) = map fst kvs"
| "get_keys (JArr (JObj kvs # rest)) = map fst kvs"
| "get_keys data = []"

record subset_result =
  sub_value :: string
  sub_status_code :: "int option"
  sub_keys :: "string list"

record progression_result =
  fp_param :: string
  fp_empty_status :: "int option"
  fp_empty_keys :: "string list"
  fp_subset :: "subset_result option"

definition run_field_progression_test :: "pylib \<Rightarrow> network \<Rightarrow> endpoint \<Rightarrow> string
    \<Rightarrow> (string \<times> string) list option \<Rightarrow> config \<Rightarrow> dict option \<Rightarrow> progression_result list run" where
  "run_field_progression_test L net endpoint base_url headers cfg base_overrides =
     for_each
       (\<lambda>s. let name = p_name s;
                 v0 = get_or JNull (map_of (get_or [] base_overrides) name);
                 current_val = (if \<not> py_truthy v0 then py_or (p_example s) (p_default s) else v0);
                 overrides_empty = dict_set name (JStr []) (get_or [] base_overrides)
             in bind (build_and_call L net cfg base_url endpoint (Some overrides_empty) None None None
                        (e_method endpoint) headers)
                  (\<lambda>r1.
                     bind (if py_truthy current_val \<and> CHR '','' \<in> set (py_str L current_val)
                           then (let single_field = strip (hd (split_on CHR '','' (py_str L current_val)));
                                     overrides_sub = dict_set name (JStr single_field) (get_or [] base_overrides)
                                 in bind (build_and_call L net cfg base_url endpoint (Some overrides_sub)
                                            None None None (e_method endpoint) headers)
                                      (\<lambda>r2. ret (Some \<lparr>sub_value = single_field,
                                                         sub_status_code = res_status_code (snd r2),
                                                         sub_keys = get_keys (res_json_body (snd r2))\<rparr>)))
                           else ret None)
                       (\<lambda>sub_res.
                          ret \<lparr>fp_param = name, fp_empty_status = res_status_code (snd r1),
                               fp_empty_keys = get_keys (res_json_body (snd r1)),
                               fp_subset = sub_res\<rparr>)))
       (find_field_selectors L endpoint)"

section \<open>Test Phase Pipeline: \<^verbatim>\<open>test_single_endpoint\<close>\<close>

record halted_record =
  hr_baseline :: probe_result
  hr_enum_results :: "enum_result list"
  hr_combinatorial_result :: comb_output
  hr_logic_findings :: "string list"
  hr_granular_fuzz :: "probe_result list"
  hr_auth_findings :: "string list"
  hr_ai_analysis :: "string option"

record full_record =
  fr_endpoint :: endpoint
  fr_test_url :: string
  fr_baseline :: probe_result
  fr_auth_test :: probe_result
  fr_special_auth :: "(string \<times> probe_result) list"
  fr_param_results :: "param_result list"
  fr_empty_results :: "empty_result list"
  fr_negative_results :: "negative_result list"
  fr_fuzz_test_results :: "probe_result list"
  fr_path_fuzz_results :: "fuzz_result list"
  fr_enum_results :: "enum_result list"
  fr_combinatorial_result :: comb_output
  fr_logic_findings :: "string list"
  fr_field_progression :: "progression_result list"
  fr_ai_analysis :: "string option"

datatype test_run_record = Halted halted_record | Completed full_record

definition truthy_str :: "string option \<Rightarrow> bool" where
  "truthy_str s = (case s of None \<Rightarrow> False | Some x \<Rightarrow> x \<noteq> [])"

definition auth_headers_of :: "pylib \<Rightarrow> config \<Rightarrow> string option \<Rightarrow> string option \<Rightarrow> string option
    \<Rightarrow> (string \<times> string) list" where
  "auth_headers_of L cfg auth_token username password =
     (if truthy_str auth_token
      then (let tok = strip (get_or [] auth_token);
                auth_type = get_or ''Bearer'' (cfg_auth_type cfg);
                auth_header_key = get_or ''Authorization'' (cfg_auth_header cfg);
                pre = str_lower L auth_type @ '' '';
                tok' = (if take (length pre) (str_lower L tok) = pre
                        then strip (py_drop (py_len auth_type + 1) tok) else tok)
            in [(auth_header_key, auth_type @ '' '' @ tok')])
      else if truthy_str username \<and> truthy_str password
      then [(''Authorization'',
             ''Basic '' @ b64encode L (get_or [] username @ '':'' @ get_or [] password))]
      else [])"

definition merge_custom :: "dict option \<Rightarrow> dict option \<Rightarrow> dict option" where
  "merge_custom param_overrides custom_overrides =
     (case custom_overrides of
        None \<Rightarrow> param_overrides
      | Some c \<Rightarrow> if c = [] then param_overrides else Some (dict_update (get_or [] param_overrides) c))"

text \<open>\<^verbatim>\<open>endpoint.get("base_url") or config.get("swagger_base_url", "")\<close>.\<close>

definition base_url_of :: "endpoint \<Rightarrow> config \<Rightarrow> string" where
  "base_url_of endpoint cfg =
     (if truthy_str (e_base_url endpoint) then get_or [] (e_base_url endpoint)
      else get_or [] (cfg_swagger_base_url cfg))"

definition halted_ai_message :: string where
  "halted_ai_message = ''Authentication failed (401). Please check your token/credentials.''"

definition ai_prompt :: "pylib \<Rightarrow> endpoint \<Rightarrow> probe_result \<Rightarrow> string" where
  "ai_prompt L endpoint baseline =
     (let summary_text =
            ''Baseline: '' @ py_str L (case res_status_code baseline of None \<Rightarrow> JNull | Some c \<Rightarrow> JInt c)
            @ '', Time: ''
            @ py_str L (case res_response_time_ms baseline of None \<Rightarrow> JNull | Some t \<Rightarrow> JFloat t)
            @ ''ms'' @ [CHR 0x0A]
            @ (if truthy_str (res_body_preview baseline)
               then ''Response: '' @ py_take 500 (get_or [] (res_body_preview baseline)) @ [CHR 0x0A]
               else [])
      in ''Analyze this API endpoint: '' @ e_method endpoint @ '' '' @ e_path endpoint
         @ [CHR 0x0A, CHR 0x0A] @ summary_text @ [CHR 0x0A, CHR 0x0A] @ ''Is it working correctly?'')"

text \<open>The granular fuzz loop: one probe per entry of \<^verbatim>\<open>random_overrides\<close>.\<close>

definition run_granular_fuzz :: "pylib \<Rightarrow> network \<Rightarrow> endpoint \<Rightarrow> string
    \<Rightarrow> (string \<times> string) list option \<Rightarrow> config \<Rightarrow> dict option \<Rightarrow> dict option \<Rightarrow> probe_result list run" where
  "run_granular_fuzz L net endpoint base_url headers cfg param_overrides random_overrides =
     for_each
       (\<lambda>kv. let current_overrides = dict_set (fst kv) (snd kv) (get_or [] param_overrides)
              in bind (build_and_call L net cfg base_url endpoint (Some current_overrides) None None None
                         (e_method endpoint) headers)
                   (\<lambda>r. ret ((snd r)\<lparr>res_param := Some (fst kv), res_value := Some (snd kv)\<rparr>)))
       (get_or [] random_overrides)"

text \<open>The token-only / credentials-only / invalid-token probes and the auth result.\<close>

definition run_auth_tests :: "pylib \<Rightarrow> network \<Rightarrow> endpoint \<Rightarrow> string \<Rightarrow> (string \<times> string) list option
    \<Rightarrow> config \<Rightarrow> dict option \<Rightarrow> string \<Rightarrow> probe_result
    \<Rightarrow> (probe_result \<times> (string \<times> probe_result) list) run" where
  "run_auth_tests L net endpoint base_url auth_headers cfg param_overrides test_url baseline =
     (let param_names = map p_name (e_params endpoint);
          has_creds = (''username'' \<in> set param_names \<or> ''password'' \<in> set param_names)
      in if has_creds
         then bind (build_and_call L net cfg base_url endpoint param_overrides
                      (Some {''username'', ''password''}) None None (e_method endpoint) auth_headers)
                (\<lambda>token_only.
                   bind (build_and_call L net cfg base_url endpoint param_overrides None None None
                           (e_method endpoint) (Some []))
                     (\<lambda>creds.
                        ret (snd creds,
                             [(''token_only'', snd token_only), (''creds_only'', snd creds)])))
         else bind (run_auth_check L net test_url (e_method endpoint) cfg)
                (\<lambda>auth_result.
                   bind (call_endpoint L net test_url (e_method endpoint)
                           (Some [(get_or ''Authorization'' (cfg_auth_header cfg),
                                   ''Bearer invalid_token_12345'')])
                           None (cfg_timeout_seconds cfg))
                     (\<lambda>invalid_auth_res.
                        ret (auth_result,
                             [(''token_only'', baseline), (''invalid_token'', invalid_auth_res)]))))"

definition test_single_endpoint :: "pylib \<Rightarrow> network \<Rightarrow> endpoint \<Rightarrow> config \<Rightarrow> string option
    \<Rightarrow> string option \<Rightarrow> string option \<Rightarrow> dict option \<Rightarrow> dict option \<Rightarrow> dict option \<Rightarrow> bool
    \<Rightarrow> string \<Rightarrow> int \<Rightarrow> int \<Rightarrow> string list option \<Rightarrow> string list option \<Rightarrow> string list option
    \<Rightarrow> test_run_record run" where
  "test_single_endpoint L net endpoint cfg auth_token username password param_overrides0
       random_overrides custom_overrides run_ai combinatorial_mode comb_offset comb_limit
       multi_params include_params isolated_params =
     (let base_url = base_url_of endpoint cfg;
          auth_headers = Some (auth_headers_of L cfg auth_token username password);
          param_overrides = merge_custom param_overrides0 custom_overrides
      in bind (lift (build_test_url L base_url endpoint param_overrides None None include_params))
        (\<lambda>ub. let test_url = fst ub; json_body = snd ub in
         bind (run_baseline L net test_url (e_method endpoint) auth_headers cfg (Some json_body) endpoint)
        (\<lambda>baseline.
         if res_status_code baseline = Some 401
         then ret (Halted
                \<lparr>hr_baseline = baseline,
                 hr_enum_results = [],
                 hr_combinatorial_result =
                   \<lparr>co_results = [], co_total_count = 0, co_offset = comb_offset, co_limit = comb_limit\<rparr>,
                 hr_logic_findings = [],
                 hr_granular_fuzz = [],
                 hr_auth_findings = [],
                 hr_ai_analysis = (if run_ai then Some halted_ai_message else None)\<rparr>)
         else
         bind (run_negative_tests L net endpoint base_url auth_headers cfg)
        (\<lambda>neg_results.
         bind (run_path_fuzzing L net endpoint base_url auth_headers cfg param_overrides)
        (\<lambda>path_fuzz_results.
         bind (run_enum_testing L net endpoint base_url auth_headers cfg param_overrides)
        (\<lambda>enum_results.
         bind (run_combinatorial_tests L net endpoint base_url auth_headers cfg param_overrides
                 combinatorial_mode comb_offset comb_limit multi_params include_params
                 random_overrides isolated_params)
        (\<lambda>combinatorial_result.
         let logic_findings = run_logic_checks L baseline param_overrides json_body in
         bind (run_granular_fuzz L net endpoint base_url auth_headers cfg param_overrides random_overrides)
        (\<lambda>fuzz_results_list.
         bind (run_auth_tests L net endpoint base_url auth_headers cfg param_overrides test_url baseline)
        (\<lambda>auth.
         bind (if filter (\<lambda>p. p_in p = ''query'') (e_params endpoint) \<noteq> []
               then bind (run_param_removal L net endpoint base_url auth_headers cfg param_overrides
                            include_params)
                      (\<lambda>param_results.
                         bind (run_empty_values L net endpoint base_url auth_headers cfg param_overrides
                                 include_params)
                           (\<lambda>empty_results. ret (param_results, empty_results)))
               else ret ([], []))
        (\<lambda>pe.
         bind (run_field_progression_test L net endpoint base_url auth_headers cfg param_overrides)
        (\<lambda>field_progression.
         ret (Completed
               \<lparr>fr_endpoint = endpoint,
                fr_test_url = test_url,
                fr_baseline = baseline,
                fr_auth_test = fst auth,
                fr_special_auth = snd auth,
                fr_param_results = fst pe,
                fr_empty_results = snd pe,
                fr_negative_results = neg_results,
                fr_fuzz_test_results = fuzz_results_list,
                fr_path_fuzz_results = path_fuzz_results,
                fr_enum_results = enum_results,
                fr_combinatorial_result = combinatorial_result,
                fr_logic_findings = logic_findings,
                fr_field_progression = field_progression,
                fr_ai_analysis =
                  (if run_ai then Some (ask_gemini L (ai_prompt L endpoint baseline) (cfg_gemini_api_key cfg))
                   else None)\<rparr>))))))))))))"

section \<open>The front-end handler: \<^verbatim>\<open>run_test\<close> of \<^verbatim>\<open>app.py\<close>\<close>

record test_request =
  tr_index :: "int option"
  tr_auth_token :: "string option"
  tr_auth_mode :: "string option"
  tr_username :: "string option"
  tr_password :: "string option"
  tr_params :: "dict option option"
  tr_random_params :: "dict option option"
  tr_custom_params :: "dict option option"
  tr_run_ai :: "bool option"
  tr_combinatorial_mode :: "string option"
  tr_comb_offset :: "int option"
  tr_comb_limit :: "int option"
  tr_multi_params :: "string list option option"
  tr_include_params :: "string list option"
  tr_isolated_params :: "string list option option"

datatype reply_body =
    ErrorMessage string
  | FailedToPopulate py_error
  | Exception py_error
  | Result test_run_record

text \<open>
  The state of the handler is the endpoint cache and the request log. \<open>discover\<close>
  stands for \<^verbatim>\<open>fetch_all_endpoints(CONFIG)\<close>, which fills an empty cache.
\<close>

definition run_test :: "pylib \<Rightarrow> network \<Rightarrow> config \<Rightarrow> endpoint list run \<Rightarrow> test_request
    \<Rightarrow> endpoint list \<times> world \<Rightarrow> (int \<times> reply_body) \<times> endpoint list \<times> world" where
  "run_test L net cfg discover data st =
     (let auth_mode = get_or ''token'' (tr_auth_mode data);
          populated = (if fst st = [] then discover (snd st) else (Inr (fst st), snd st))
      in case populated of
           (Inl e, w) \<Rightarrow> ((500, FailedToPopulate e), fst st, w)
         | (Inr cached, w) \<Rightarrow>
             (case tr_index data of
                None \<Rightarrow> ((400, ErrorMessage ''Invalid endpoint index''), cached, w)
              | Some endpoint_index \<Rightarrow>
                  if \<not> (0 \<le> endpoint_index \<and> endpoint_index < int (length cached))
                  then ((400, ErrorMessage ''Invalid endpoint index''), cached, w)
                  else
                    (case test_single_endpoint L net (cached ! nat endpoint_index) cfg
                            (if auth_mode = ''token'' then tr_auth_token data else None)
                            (if auth_mode = ''creds'' then tr_username data else None)
                            (if auth_mode = ''creds'' then tr_password data else None)
                            (get_or (Some []) (tr_params data))
                            (get_or (Some []) (tr_random_params data))
                            (get_or (Some []) (tr_custom_params data))
                            (get_or False (tr_run_ai data))
                            (get_or ''minimal'' (tr_combinatorial_mode data))
                            (get_or 0 (tr_comb_offset data))
                            (get_or 64 (tr_comb_limit data))
                            (get_or (Some []) (tr_multi_params data))
                            (tr_include_params data)
                            (get_or (Some []) (tr_isolated_params data)) w of
                       (Inl e, w') \<Rightarrow> ((500, Exception e), cached, w')
                     | (Inr result, w') \<Rightarrow> ((200, Result result), cached, w'))))"

section \<open>When two calls of the Request Builder have identical inputs\<close>

text \<open>
  Python compares dictionaries by their entries, whatever the insertion order, and the
  builder only asks whether a name is in the skip-set, the empty-set and the inclusion
  filter. Two optional override dictionaries are the same input when both are absent
  or both are present and map the same names to the same values; two inclusion filters
  when both are absent or both are present with the same members.
\<close>

definition same_overrides :: "dict option \<Rightarrow> dict option \<Rightarrow> bool" where
  "same_overrides a b =
     (case a of None \<Rightarrow> b = None
      | Some d1 \<Rightarrow> (case b of None \<Rightarrow> False | Some d2 \<Rightarrow> map_of d1 = map_of d2))"

definition same_filter :: "string list option \<Rightarrow> string list option \<Rightarrow> bool" where
  "same_filter a b =
     (case a of None \<Rightarrow> b = None
      | Some xs \<Rightarrow> (case b of None \<Rightarrow> False | Some ys \<Rightarrow> set xs = set ys))"

section \<open>Sample inputs\<close>

text \<open>
  Concrete inputs on which the theorems below are instantiated: a library stand-in
  (whose case mappings are the ASCII ones), a configuration, the endpoint
  \<^verbatim>\<open>GET /items?category=&limit=\<close> with a required \<open>category\<close> and an optional \<open>limit\<close>,
  and networks: one that cannot be reached, two that answer 401 and 200, one that
  refuses a timeout that is not positive as \<^verbatim>\<open>urllib3\<close> does, and one whose body is
  nested too deeply for \<^verbatim>\<open>resp.json()\<close>.
\<close>

definition ascii_lower :: "string \<Rightarrow> string" where
  "ascii_lower s =
     map (\<lambda>c. let n = (of_char c :: nat) in if 65 \<le> n \<and> n \<le> 90 then char_of (n + 32) else c) s"

definition ascii_upper :: "string \<Rightarrow> string" where
  "ascii_upper s =
     map (\<lambda>c. let n = (of_char c :: nat) in if 97 \<le> n \<and> n \<le> 122 then char_of (n - 32) else c) s"

definition sample_lib :: pylib where
  "sample_lib = \<lparr>py_repr = (\<lambda>v. ''?''), json_dumps = (\<lambda>v. Inr ''{}''),
     str_lower = ascii_lower, str_upper = ascii_upper, ask_gemini = (\<lambda>p k. ''ok''),
     b64encode = (\<lambda>s. s)\<rparr>"

definition sample_config :: config where
  "sample_config = \<lparr>cfg_timeout_seconds = 10, cfg_response_time_limit_ms = 2000,
     cfg_swagger_base_url = Some ''http://api.test/'', cfg_auth_type = None, cfg_auth_header = None,
     cfg_gemini_api_key = ''key''\<rparr>"

definition category_param :: param where
  "category_param = \<lparr>p_name = ''category'', p_in = ''query'', p_required = True, p_description = [],
     p_example = JStr ''shoes'', p_default = JNull, p_type = JStr ''string'', p_enum = None\<rparr>"

definition limit_param :: param where
  "limit_param = \<lparr>p_name = ''limit'', p_in = ''query'', p_required = False, p_description = [],
     p_example = JInt 10, p_default = JInt 10, p_type = JStr ''integer'', p_enum = None\<rparr>"

definition items_endpoint :: endpoint where
  "items_endpoint = \<lparr>e_group = ''shop'', e_path = ''/items'', e_method = ''GET'', e_tags = [],
     e_summary = [], e_operation_id = ''listItems'', e_params = [category_param, limit_param],
     e_request_body_schema = None, e_response_schemas = [], e_service_name = None,
     e_base_url = None\<rparr>"

definition answer :: "int \<Rightarrow> http_request \<Rightarrow> http_response" where
  "answer code r = \<lparr>resp_status_code = code, resp_elapsed_ms = 12, resp_headers = [],
     resp_request_headers = get_or [] (rq_headers r), resp_request_url = rq_url r,
     resp_request_method = ''GET'', resp_request_body = None, resp_json = Inr (JObj []),
     resp_text = ''{}''\<rparr>"

definition unreachable :: network where
  "unreachable w r = Inl ConnectionError"

definition unauthorized :: network where
  "unauthorized w r = Inr (answer 401 r)"

definition always_ok :: network where
  "always_ok w r = Inr (answer 200 r)"

definition rejects_timeout :: network where
  "rejects_timeout w r = (if rq_timeout r \<le> 0 then Inl ValueError else Inr (answer 200 r))"

definition deeply_nested :: network where
  "deeply_nested w r = Inr ((answer 200 r)\<lparr>resp_json := Inl RecursionError, resp_text := ''[[[[''\<rparr>)"

definition sample_request :: test_request where
  "sample_request = \<lparr>tr_index = Some 0, tr_auth_token = Some ''tok'', tr_auth_mode = None,
     tr_username = None, tr_password = None, tr_params = None, tr_random_params = None,
     tr_custom_params = None, tr_run_ai = None, tr_combinatorial_mode = Some ''full'',
     tr_comb_offset = Some 1000, tr_comb_limit = None, tr_multi_params = None,
     tr_include_params = None, tr_isolated_params = None\<rparr>"

definition no_discovery :: "endpoint list run" where
  "no_discovery w = (Inr [], w)"

text \<open>
  A document with one path: a \<^verbatim>\<open>post\<close> and an \<^verbatim>\<open>options\<close> operation, a declared
  parameter \<open>shop\<close> and the body properties \<open>shop\<close> and \<open>size\<close>, each with an enum and
  neither example nor default.
\<close>

definition size_prop :: body_prop where
  "size_prop = \<lparr>pr_description = None, pr_type = Some (JStr ''string''), pr_example = JNull,
     pr_default = JNull, pr_enum = Some [JStr ''S'', JStr ''M'']\<rparr>"

definition shop_raw_param :: raw_param where
  "shop_raw_param = \<lparr>raw_name = Some ''shop'', raw_in = None, raw_required = None,
     raw_description = None, raw_example = None,
     raw_schema = Some \<lparr>sch_type = Some (JStr ''string''), sch_default = JNull,
                         sch_enum = Some [JStr ''S'', JStr ''M''], sch_example = None\<rparr>\<rparr>"

definition create_item_body :: body_schema where
  "create_item_body = \<lparr>bs_properties = [(''shop'', size_prop), (''size'', size_prop)],
     bs_required = [''size'']\<rparr>"

definition create_item :: operation where
  "create_item = \<lparr>op_tags = None, op_summary = None, op_operation_id = None,
     op_parameters = Some [shop_raw_param], op_responses = None,
     op_request_body_json = Some (Some create_item_body)\<rparr>"

definition sample_paths :: "(string \<times> (string \<times> operation) list) list" where
  "sample_paths = [(''/items'', [(''post'', create_item), (''options'', create_item)])]"

text \<open>
  A second document: a \<^verbatim>\<open>get\<close> operation without a request body whose parameter \<open>page\<close>
  has type \<open>integer\<close> and nothing else, and the same operation with the list
  \<^verbatim>\<open>["integer", "null"]\<close> for a type.
\<close>

definition page_raw_param :: raw_param where
  "page_raw_param = \<lparr>raw_name = Some ''page'', raw_in = None, raw_required = None,
     raw_description = None, raw_example = None,
     raw_schema = Some \<lparr>sch_type = Some (JStr ''integer''), sch_default = JNull,
                         sch_enum = None, sch_example = None\<rparr>\<rparr>"

definition list_items :: operation where
  "list_items = \<lparr>op_tags = None, op_summary = None, op_operation_id = None,
     op_parameters = Some [page_raw_param], op_responses = None,
     op_request_body_json = None\<rparr>"

definition listing_paths :: "(string \<times> (string \<times> operation) list) list" where
  "listing_paths = [(''/items'', [(''GET'', list_items)])]"

definition nullable_page :: raw_param where
  "nullable_page = page_raw_param\<lparr>raw_schema :=
     Some \<lparr>sch_type = Some (JArr [JStr ''integer'', JStr ''null'']), sch_default = JNull,
           sch_enum = None, sch_example = None\<rparr>\<rparr>"

definition nullable_paths :: "(string \<times> (string \<times> operation) list) list" where
  "nullable_paths = [(''/items'', [(''get'', list_items\<lparr>op_parameters := Some [nullable_page]\<rparr>)])]"

definition tags_param :: param where
  "tags_param = \<lparr>p_name = ''tags'', p_in = ''query'', p_required = False, p_description = [],
     p_example = JNull, p_default = JNull, p_type = JStr ''array'', p_enum = None\<rparr>"

definition sample_overrides :: dict where
  "sample_overrides = [(''category'', JStr ''shoes, boots''), (''limit'', JStr ''5'')]"

section \<open>Auxiliary facts\<close>

lemma map_of_dict_set: "map_of (dict_set k v d) = (map_of d)(k \<mapsto> v)"
  by (induction d) (auto simp: fun_eq_iff)

lemma fold_dedup_set: "set (fold (\<lambda>c seen. if c \<in> set seen then seen else seen @ [c]) cs acc) = set acc \<union> set cs"
  by (induction cs arbitrary: acc) auto

lemma fold_dedup_distinct:
  "distinct acc \<Longrightarrow> distinct (fold (\<lambda>c seen. if c \<in> set seen then seen else seen @ [c]) cs acc)"
  by (induction cs arbitrary: acc) auto

lemma set_dedup: "set (dedup cs) = set cs"
  by (simp add: dedup_def fold_dedup_set)

lemma distinct_dedup: "distinct (dedup cs)"
  by (simp add: dedup_def fold_dedup_distinct)

lemma fold_dedup_id:
  "distinct (acc @ cs) \<Longrightarrow> fold (\<lambda>c seen. if c \<in> set seen then seen else seen @ [c]) cs acc = acc @ cs"
  by (induction cs arbitrary: acc) auto

lemma dedup_distinct_id: "distinct cs \<Longrightarrow> dedup cs = cs"
  by (simp add: dedup_def fold_dedup_id)

lemma value_pool_nonempty: "value_pool L bo ro multi inc p \<noteq> []"
  by (simp add: value_pool_def Let_def)

lemma value_pool_distinct: "distinct (value_pool L bo ro multi inc p)"
  by (simp add: value_pool_def Let_def distinct_dedup)

lemma filter_neq_hd_length:
  "distinct pool \<Longrightarrow> pool \<noteq> [] \<Longrightarrow> length (filter (\<lambda>v. v \<noteq> hd pool) pool) = length pool - 1"
proof (cases pool)
  case Nil
  then show ?thesis by simp
next
  case (Cons a list)
  assume "distinct pool"
  with Cons have "filter (\<lambda>v. v \<noteq> a) list = list"
    by (auto intro: filter_True)
  with Cons show ?thesis by simp
qed

lemma length_product_lists': "length (product_lists xss) = prod_list (map length xss)"
  by (induction xss) (auto simp: length_concat comp_def sum_list_triv)


lemma build_pools_inv:
  assumes "\<forall>n pool. map_of (fst st) n = Some pool \<longrightarrow>
             pool \<noteq> [] \<and> distinct pool \<and> map_of (snd st) n = Some (hd pool)"
  shows "\<forall>n pool. map_of (fst (build_pools L bo ro multi inc ps st)) n = Some pool \<longrightarrow>
             pool \<noteq> [] \<and> distinct pool \<and> map_of (snd (build_pools L bo ro multi inc ps st)) n = Some (hd pool)"
  using assms
proof (induction ps arbitrary: st)
  case Nil
  then show ?case by simp
next
  case (Cons p ps)
  show ?case
    unfolding build_pools.simps Let_def
    by (rule Cons.IH) (use Cons.prems in \<open>simp add: map_of_dict_set value_pool_nonempty value_pool_distinct\<close>)
qed

lemma pools_of_inv:
  "map_of (fst (pools_of L e bo ro multi inc)) n = Some pool \<Longrightarrow>
     pool \<noteq> [] \<and> distinct pool \<and> map_of (snd (pools_of L e bo ro multi inc)) n = Some (hd pool)"
  unfolding pools_of_def using build_pools_inv [of "([], [])"] by simp

lemma build_pools_origin:
  "map_of (fst (build_pools L bo ro multi inc ps st)) n = Some pool \<Longrightarrow>
     map_of (fst st) n = Some pool \<or> (\<exists>p \<in> set ps. p_name p = n \<and> pool = value_pool L bo ro multi inc p)"
proof (induction ps arbitrary: st)
  case Nil
  then show ?case by simp
next
  case (Cons p ps)
  from Cons.prems Cons.IH [of "(dict_set (p_name p) (value_pool L bo ro multi inc p) (fst st),
        dict_set (p_name p) (hd (value_pool L bo ro multi inc p)) (snd st))"]
  show ?case
    by (auto simp: Let_def map_of_dict_set split: if_splits)
qed

lemma isolated_combos_length:
  assumes "\<And>n pool. map_of pools n = Some pool \<Longrightarrow>
             pool \<noteq> [] \<and> distinct pool \<and> map_of baselines n = Some (hd pool)"
      and "isolated_combos pools baselines names = Inr combos"
  shows "length combos =
           sum_list (map (\<lambda>n. case map_of pools n of None \<Rightarrow> 0 | Some pool \<Rightarrow> length pool - 1) names)"
  using assms(2)
proof (induction names arbitrary: combos)
  case Nil
  then show ?case by simp
next
  case (Cons n names)
  show ?case
  proof (cases "map_of pools n")
    case None
    with Cons show ?thesis by simp
  next
    case (Some pool)
    with assms(1) have p: "pool \<noteq> []" "distinct pool" "map_of baselines n = Some (hd pool)"
      by blast+
    from Cons.prems Some p obtain rest where
      r: "isolated_combos pools baselines names = Inr rest"
         "combos = map (\<lambda>val. dict_set n val baselines) (filter (\<lambda>val. val \<noteq> hd pool) pool) @ rest"
      by (auto split: sum.splits)
    from Cons.IH [OF r(1)] r(2) Some p show ?thesis
      by (simp add: filter_neq_hd_length)
  qed
qed

lemma for_each_Inr:
  assumes "for_each f xs w = (Inr ys, w')"
      and "\<And>x y w w'. f x w = (Inr y, w') \<Longrightarrow> g y = x"
  shows "map g ys = xs"
  using assms(1)
proof (induction xs arbitrary: ys w w')
  case Nil
  then show ?case by (simp add: ret_def)
next
  case (Cons x xs)
  from Cons.prems obtain y w1 ys' where
    a: "f x w = (Inr y, w1)" and b: "for_each f xs w1 = (Inr ys', w')" and c: "ys = y # ys'"
    by (auto simp: bind_def ret_def split: prod.splits sum.splits)
  from assms(2) [OF a] Cons.IH [OF b] c show ?case by simp
qed

lemma run_combination_params:
  "run_combination L net cfg base_url e headers inc bl tp w = (Inr y, w') \<Longrightarrow> cr_params_used y = tp"
  by (auto simp: run_combination_def build_and_call_def bind_def ret_def lift_def
           split: prod.splits sum.splits option.splits)

lemma py_slice_nonneg: "py_slice xs (int a) (int a + int l) = take l (drop a xs)"
proof -
  have "nat (int a + int l) = a + l" by (rule nat_int_add)
  then have "py_slice xs (int a) (int a + int l) = take (min (a + l) (length xs) - min a (length xs)) (drop (min a (length xs)) xs)"
    by (simp add: py_slice_def slice_bound_def Let_def)
  also have "\<dots> = take l (drop a xs)"
  proof (cases "a \<le> length xs")
    case True
    then have "min a (length xs) = a" by simp
    moreover have "take (min (a + l) (length xs) - a) (drop a xs) = take l (drop a xs)"
      by (cases "a + l \<le> length xs") (simp_all add: min_def)
    ultimately show ?thesis by simp
  next
    case False
    then show ?thesis by simp
  qed
  finally show ?thesis .
qed

lemma concat_windows_take:
  "concat (map (\<lambda>k. take l (drop (k * l) xs)) [0 ..< n]) = take (n * l) xs"
proof (induction n)
  case 0
  then show ?case by simp
next
  case (Suc n)
  have "Suc n * l = n * l + l" by simp
  then have "take (Suc n * l) xs = take (n * l) xs @ take l (drop (n * l) xs)"
    by (simp only: take_add)
  with Suc show ?case by simp
qed

lemma combinations_Nil: "combinations [] k = (if k = 0 then [[]] else [])"
  by (cases k) simp_all

lemma combinations_subseqs: "combinations xs k = filter (\<lambda>ys. length ys = k) (subseqs xs)"
proof (induction xs arbitrary: k)
  case Nil
  then show ?case by (simp add: combinations_Nil)
next
  case (Cons x xs)
  show ?case
  proof (cases k)
    case 0
    with Cons [of 0] show ?thesis by (simp add: Let_def filter_map comp_def)
  next
    case (Suc j)
    with Cons [of j] Cons [of "Suc j"] show ?thesis
      by (simp add: Let_def filter_map comp_def)
  qed
qed

lemma set_combinations: "set (combinations xs k) = {ys. subseq ys xs \<and> length ys = k}"
  by (auto simp: combinations_subseqs)

lemma set_all_combinations:
  "set (concat (map (combinations xs) [1 ..< length xs + 1])) = {ys. subseq ys xs \<and> ys \<noteq> []}"
proof (intro set_eqI iffI)
  fix ys
  assume "ys \<in> set (concat (map (combinations xs) [1 ..< length xs + 1]))"
  then obtain k where "1 \<le> k" and "ys \<in> set (combinations xs k)"
    by auto
  then have "subseq ys xs" and "length ys = k" and "1 \<le> k"
    by (simp_all add: set_combinations)
  then show "ys \<in> {ys. subseq ys xs \<and> ys \<noteq> []}"
    by auto
next
  fix ys
  assume "ys \<in> {ys. subseq ys xs \<and> ys \<noteq> []}"
  then have s: "subseq ys xs" and n: "ys \<noteq> []"
    by simp_all
  from s have "length ys \<le> length xs"
    by (rule list_emb_length)
  moreover from n have "1 \<le> length ys"
    by (cases ys) simp_all
  moreover from s have "ys \<in> set (combinations xs (length ys))"
    by (simp add: set_combinations)
  ultimately have "\<exists>k \<in> set [1 ..< length xs + 1]. ys \<in> set (combinations xs k)"
    by (intro bexI [of _ "length ys"]) auto
  then show "ys \<in> set (concat (map (combinations xs) [1 ..< length xs + 1]))"
    by auto
qed

lemma sorted_map_const: "\<forall>x \<in> set l. g x = (c::nat) \<Longrightarrow> sorted (map g l)"
  by (induction l) auto

lemma sorted_all_combinations:
  "sorted (map length (concat (map (combinations xs) [a ..< b])))"
proof (induction b)
  case 0
  then show ?case by simp
next
  case (Suc b)
  show ?case
  proof (cases "a \<le> b")
    case True
    then have u: "[a ..< Suc b] = [a ..< b] @ [b]" by simp
    have "sorted (map length (combinations xs b))"
      by (rule sorted_map_const [of _ _ b]) (simp add: set_combinations)
    with Suc show ?thesis
      unfolding u by (auto simp: sorted_append set_combinations)
  next
    case False
    then show ?thesis by simp
  qed
qed

lemma fold_dedup_map:
  assumes "inj f"
  shows "fold (\<lambda>c seen. if c \<in> set seen then seen else seen @ [c]) (map f cs) (map f acc)
           = map f (fold (\<lambda>c seen. if c \<in> set seen then seen else seen @ [c]) cs acc)"
proof (induction cs arbitrary: acc)
  case Nil
  then show ?case by simp
next
  case (Cons c cs)
  from assms have "f c \<in> f ` set acc \<longleftrightarrow> c \<in> set acc"
    by (simp add: inj_image_mem_iff)
  with Cons [of acc] Cons [of "acc @ [c]"] show ?case
    by simp
qed

lemma dedup_map: "inj f \<Longrightarrow> dedup (map f cs) = map f (dedup cs)"
  using fold_dedup_map [of f cs "[]"] by (simp add: dedup_def)

lemma fold_dedup_sorted:
  "sorted (map g (acc @ cs)) \<Longrightarrow>
     sorted (map g (fold (\<lambda>c seen. if c \<in> set seen then seen else seen @ [c]) cs acc))"
proof (induction cs arbitrary: acc)
  case Nil
  then show ?case by simp
next
  case (Cons c cs)
  show ?case
  proof (cases "c \<in> set acc")
    case True
    from Cons.prems have "sorted (map g (acc @ cs))"
      by (auto simp: sorted_append)
    with True Cons.IH [of acc] show ?thesis by simp
  next
    case False
    with Cons.prems Cons.IH [of "acc @ [c]"] show ?thesis by simp
  qed
qed

lemma sorted_dedup: "sorted (map g cs) \<Longrightarrow> sorted (map g (dedup cs))"
  using fold_dedup_sorted [of g "[]" cs] by (simp add: dedup_def)

lemma inj_JArr_JStr: "inj (\<lambda>ys. JArr (map JStr ys))"
  by (auto simp: inj_on_def dest: map_injective)

lemma candidates_multi:
  "candidates True samples = map (\<lambda>ys. JArr (map JStr ys)) (concat (map (combinations samples) [1 ..< length samples + 1]))"
  by (simp add: candidates_def map_concat comp_def)

lemma candidates_empty_iff: "candidates multi samples = [] \<longleftrightarrow> samples = []"
proof (cases multi)
  case True
  show ?thesis
  proof (cases samples)
    case Nil
    with True show ?thesis by (simp add: candidates_def)
  next
    case (Cons x xs)
    have "[x] \<in> set (concat (map (combinations (x # xs)) [1 ..< length (x # xs) + 1]))"
      unfolding set_all_combinations by simp
    then have "concat (map (combinations (x # xs)) [1 ..< length (x # xs) + 1]) \<noteq> []"
      by force
    then have "candidates True (x # xs) \<noteq> []"
      by (metis candidates_multi map_is_Nil_conv)
    with True Cons show ?thesis
      by simp
  qed
next
  case False
  then show ?thesis by (simp add: candidates_def)
qed

lemma dedup_empty_iff: "dedup cs = [] \<longleftrightarrow> cs = []"
  using set_dedup [of cs] by (metis set_empty)

lemma JNull_notin_candidates: "JNull \<notin> set (candidates multi samples)"
  by (auto simp: candidates_def)

lemma collect_Inr: "collect f xs = Inr ys \<longleftrightarrow> map f xs = map Inr ys"
proof (induction xs arbitrary: ys)
  case Nil
  then show ?case by auto
next
  case (Cons x xs)
  show ?case
  proof (cases "f x")
    case (Inl e)
    then show ?thesis by (auto simp: Cons_eq_map_conv)
  next
    case fx: (Inr y)
    show ?thesis
    proof (cases "collect f xs")
      case (Inl e)
      with Cons.IH have "\<And>zs. map f xs \<noteq> map Inr zs" by simp
      with Inl fx show ?thesis by (auto simp: Cons_eq_map_conv)
    next
      case (Inr zs)
      with Cons.IH [of zs] have m: "map f xs = map Inr zs" by simp
      have i: "inj (Inr :: 'b \<Rightarrow> 'a + 'b)" by (simp add: inj_def)
      from Inr fx m show ?thesis
        by (auto simp: Cons_eq_map_conv inj_map_eq_map [OF i])
    qed
  qed
qed

lemma collect_all2:
  "collect f xs = Inr ys \<Longrightarrow> (\<And>x y. x \<in> set xs \<Longrightarrow> f x = Inr y \<Longrightarrow> P y x) \<Longrightarrow> list_all2 P ys xs"
proof (induction xs arbitrary: ys)
  case Nil
  then show ?case by simp
next
  case (Cons x xs)
  from Cons.prems(1) obtain y zs where fx: "f x = Inr y" and c: "collect f xs = Inr zs"
    and ys: "ys = y # zs"
    by (auto split: sum.splits)
  from Cons.IH [OF c] Cons.prems(2) have "list_all2 P zs xs" by simp
  moreover from Cons.prems(2) fx have "P y x" by simp
  ultimately show ?case using ys by simp
qed

lemma map_sum_Inr_eq: "map (map_sum g f) (map Inr xs) = map Inr ys \<Longrightarrow> map f xs = ys"
  by (induction xs arbitrary: ys) auto

lemma parse_param_name: "parse_param rp = Inr q \<Longrightarrow> p_name q = get_or [] (raw_name rp)"
  by (auto simp: parse_param_def Let_def split: sum.splits)

lemma parse_body_prop_name: "parse_body_prop req np = Inr q \<Longrightarrow> p_name q = fst np"
  by (auto simp: parse_body_prop_def Let_def split: sum.splits)

lemma declared_names:
  "map parse_param raws = map Inr params
     \<Longrightarrow> map p_name params = map (\<lambda>rp. get_or [] (raw_name rp)) raws"
proof (induction raws arbitrary: params)
  case Nil
  then show ?case by simp
next
  case (Cons rp raws)
  then show ?case by (auto simp: Cons_eq_map_conv parse_param_name)
qed

lemma add_body_props_eq:
  "distinct (map fst props) \<Longrightarrow> add_body_props req props params = Inr ps \<Longrightarrow>
     map Inr ps
       = map Inr params
         @ map (parse_body_prop req) (filter (\<lambda>np. fst np \<notin> set (map p_name params)) props)"
proof (induction props arbitrary: params)
  case Nil
  then show ?case by simp
next
  case (Cons np props)
  show ?case
  proof (cases "\<exists>existing \<in> set params. p_name existing = fst np")
    case True
    then have "fst np \<in> set (map p_name params)" by force
    with True Cons show ?thesis by simp
  next
    case False
    from Cons.prems have d: "distinct (map fst props)" and n: "fst np \<notin> fst ` set props"
      by auto
    from False Cons.prems(2) obtain q where q: "parse_body_prop req np = Inr q"
      and r: "add_body_props req props (params @ [q]) = Inr ps"
      by (auto split: sum.splits)
    have nm: "p_name q = fst np"
      by (rule parse_body_prop_name [OF q])
    have f: "filter (\<lambda>x. fst x \<notin> set (map p_name (params @ [q]))) props
        = filter (\<lambda>x. fst x \<notin> set (map p_name params)) props"
    proof (rule filter_cong [OF refl])
      fix x assume "x \<in> set props"
      with n have "fst x \<noteq> fst np" by (metis image_eqI)
      with nm show "(fst x \<notin> set (map p_name (params @ [q]))) = (fst x \<notin> set (map p_name params))"
        by simp
    qed
    from False have k: "fst np \<notin> set (map p_name params)" by force
    from Cons.IH [OF d r] f q k show ?thesis by simp
  qed
qed

lemma type_fallback:
  "type_default type_defaults (JStr t)
     = Inr (if t = ''integer'' then ''1'' else if t = ''number'' then ''1.0''
            else if t = ''boolean'' then ''true'' else ''test'')"
  by (simp add: type_default_def type_defaults_def get_or_def)

lemma body_type_fallback:
  "type_default body_type_defaults (JStr t)
     = Inr (if t = ''integer'' then ''1'' else if t = ''number'' then ''1.0''
            else if t = ''boolean'' then ''true'' else ''test'')"
  by (simp add: type_default_def body_type_defaults_def get_or_def)

lemma all_of_map: "map f xs = ys \<Longrightarrow> \<forall>y \<in> set ys. P y \<Longrightarrow> \<forall>x \<in> set xs. P (f x)"
  by auto

lemma collect_total: "\<forall>x \<in> set xs. \<exists>y. f x = Inr y \<Longrightarrow> \<exists>ys. collect f xs = Inr ys"
  by (induction xs) auto

lemma parse_param_total:
  "\<not> unhashable (get_or (JStr ''string'') (sch_type (get_or empty_schema (raw_schema rp))))
     \<Longrightarrow> \<exists>q. parse_param rp = Inr q"
  by (simp add: parse_param_def Let_def type_default_def split: option.splits json.splits)

lemma parse_body_prop_total:
  "\<not> unhashable (get_or (JStr ''string'') (pr_type (snd np)))
     \<Longrightarrow> \<exists>q. parse_body_prop req np = Inr q"
  by (simp add: parse_body_prop_def Let_def type_default_def split: json.splits)

lemma add_body_props_total:
  "\<forall>np \<in> set props. \<exists>q. parse_body_prop req np = Inr q
     \<Longrightarrow> \<exists>ps. add_body_props req props params = Inr ps"
proof (induction props arbitrary: params)
  case Nil
  then show ?case by simp
next
  case (Cons np props)
  then obtain q where q: "parse_body_prop req np = Inr q" by auto
  from Cons have "\<And>params. \<exists>ps. add_body_props req props params = Inr ps" by simp
  with q show ?case by simp
qed

lemma parse_operation_total:
  assumes "\<forall>rp \<in> set (declared_parameters (snd (snd pmd))).
             \<not> unhashable (get_or (JStr ''string'') (sch_type (get_or empty_schema (raw_schema rp))))"
      and "\<forall>np \<in> set (body_properties (snd (snd pmd))).
             \<not> unhashable (get_or (JStr ''string'') (pr_type (snd np)))"
  shows "\<exists>ep. parse_operation L g pmd = Inr ep"
proof -
  from assms(1) have "\<forall>rp \<in> set (declared_parameters (snd (snd pmd))). \<exists>q. parse_param rp = Inr q"
    by (simp add: parse_param_total)
  then obtain params where c: "collect parse_param (declared_parameters (snd (snd pmd))) = Inr params"
    using collect_total by blast
  show ?thesis
  proof (cases "request_body_schema_of (snd (snd pmd))")
    case None
    with c show ?thesis
      by (simp add: parse_operation_def Let_def)
  next
    case (Some sch)
    with assms(2) have "\<forall>np \<in> set (bs_properties sch). \<exists>q. parse_body_prop (bs_required sch) np = Inr q"
      by (simp add: body_properties_def parse_body_prop_total)
    then obtain ps where "add_body_props (bs_required sch) (bs_properties sch) params = Inr ps"
      using add_body_props_total by blast
    with c Some show ?thesis
      by (simp add: parse_operation_def Let_def)
  qed
qed

lemma parse_operation_params:
  assumes "parse_operation L g pmd = Inr ep"
      and "distinct (map fst (body_properties (snd (snd pmd))))"
  shows "e_path ep = fst pmd \<and> e_method ep = str_upper L (fst (snd pmd))
       \<and> map Inr (e_params ep)
           = map parse_param (declared_parameters (snd (snd pmd)))
             @ map (parse_body_prop (body_required (snd (snd pmd))))
                 (filter (\<lambda>np. fst np \<notin> set (map (\<lambda>rp. get_or [] (raw_name rp))
                                                (declared_parameters (snd (snd pmd)))))
                    (body_properties (snd (snd pmd))))"
proof -
  from assms(1) obtain params where c: "collect parse_param (declared_parameters (snd (snd pmd))) = Inr params"
    by (auto simp: parse_operation_def Let_def split: sum.splits)
  then have m: "map parse_param (declared_parameters (snd (snd pmd))) = map Inr params"
    by (simp add: collect_Inr)
  note names = declared_names [OF m]
  show ?thesis
  proof (cases "request_body_schema_of (snd (snd pmd))")
    case None
    with assms(1) c m show ?thesis
      by (auto simp: parse_operation_def Let_def body_properties_def)
  next
    case (Some sch)
    show ?thesis
    proof (cases "bs_properties sch = []")
      case True
      with Some assms(1) c m show ?thesis
        by (auto simp: parse_operation_def Let_def body_properties_def)
    next
      case False
      with Some assms(1) c obtain ps where
        a: "add_body_props (bs_required sch) (bs_properties sch) params = Inr ps"
        and e: "e_params ep = ps" "e_path ep = fst pmd" "e_method ep = str_upper L (fst (snd pmd))"
        by (auto simp: parse_operation_def Let_def split: sum.splits)
      from assms(2) Some have d: "distinct (map fst (bs_properties sch))"
        by (simp add: body_properties_def)
      from add_body_props_eq [OF d a] m names e Some show ?thesis
        by (simp add: body_properties_def body_required_def)
    qed
  qed
qed

lemma py_slice_beyond: "int (length xs) \<le> a \<Longrightarrow> py_slice xs a b = []"
  by (simp add: py_slice_def slice_bound_def Let_def)

lemma distinct_concat_filter_length:
  "distinct l \<Longrightarrow> distinct ks \<Longrightarrow>
     distinct (concat (map (\<lambda>k. filter (\<lambda>ys. length ys = k) l) ks))"
  by (induction ks) auto

lemma distinct_subseqs': "distinct xs \<Longrightarrow> distinct (subseqs xs)"
  using distinct_set_subseqs [of xs] by (simp add: distinct_map)

lemma dict_set_same: "map_of d k = Some v \<Longrightarrow> dict_set k v d = d"
  by (induction d) (auto split: if_splits)

lemma assign_same:
  "\<forall>nv \<in> set (zip names combo). map_of d (fst nv) = Some (snd nv) \<Longrightarrow> assign names combo d = d"
proof -
  have "\<forall>nv \<in> set nvs. map_of d (fst nv) = Some (snd nv) \<Longrightarrow>
          fold (\<lambda>nv. dict_set (fst nv) (snd nv)) nvs d = d" for nvs
    by (induction nvs) (simp_all add: dict_set_same)
  then show "\<forall>nv \<in> set (zip names combo). map_of d (fst nv) = Some (snd nv) \<Longrightarrow> assign names combo d = d"
    by (simp add: assign_def)
qed

lemma lookup_pools_Inr:
  "lookup_pools pools names = Inr mp \<Longrightarrow> list_all2 (\<lambda>n p. map_of pools n = Some p) names mp"
  by (induction names arbitrary: mp) (auto split: option.splits sum.splits)

lemma product_lists_nonempty: "\<forall>xs \<in> set xss. xs \<noteq> [] \<Longrightarrow> product_lists xss \<noteq> []"
  by (induction xss) (auto simp: neq_Nil_conv)

lemma hd_product_lists: "\<forall>xs \<in> set xss. xs \<noteq> [] \<Longrightarrow> hd (product_lists xss) = map hd xss"
proof (induction xss)
  case Nil
  then show ?case by simp
next
  case (Cons xs xss)
  then obtain x xs' where xs: "xs = x # xs'"
    by (cases xs) auto
  from Cons.prems have "product_lists xss \<noteq> []"
    by (simp add: product_lists_nonempty)
  with Cons xs show ?case
    by (simp add: hd_map)
qed

lemma looked_up_pools:
  assumes "list_all2 (\<lambda>n p. map_of pools n = Some p) names mp"
      and "\<And>n pool. map_of pools n = Some pool \<Longrightarrow> pool \<noteq> [] \<and> map_of baselines n = Some (hd pool)"
  shows "(\<forall>xs \<in> set mp. xs \<noteq> [])
         \<and> (\<forall>nv \<in> set (zip names (map hd mp)). map_of baselines (fst nv) = Some (snd nv))"
  using assms(1)
proof (induction rule: list_all2_induct)
  case Nil
  then show ?case by simp
next
  case (Cons n ns p ps)
  from assms(2) [OF Cons.hyps(1)] Cons.IH show ?case
    by simp
qed

lemma take1_main_combos:
  assumes "list_all2 (\<lambda>n p. map_of pools n = Some p) names mp"
      and "\<And>n pool. map_of pools n = Some pool \<Longrightarrow> pool \<noteq> [] \<and> map_of baselines n = Some (hd pool)"
  shows "take 1 (main_combos names mp baselines @ rest) = [baselines]"
proof -
  from looked_up_pools [OF assms] have ne: "\<forall>xs \<in> set mp. xs \<noteq> []"
    and z: "\<forall>nv \<in> set (zip names (map hd mp)). map_of baselines (fst nv) = Some (snd nv)"
    by simp_all
  from ne have p: "product_lists mp \<noteq> []" and h: "hd (product_lists mp) = map hd mp"
    by (simp_all add: product_lists_nonempty hd_product_lists)
  from z have "assign names (map hd mp) baselines = baselines"
    by (rule assign_same)
  with p h show ?thesis
    by (cases "product_lists mp") (simp_all add: main_combos_def)
qed

lemma all_combos_dicts_Inr:
  assumes "all_combos_dicts L endpoint bo ro multi inc isolated = Inr combos"
  shows "\<exists>main_pools.
           lookup_pools (fst (pools_of L endpoint bo ro multi inc)) (main_pool_names endpoint inc isolated)
             = Inr main_pools
         \<and> length combos
             = length (product_lists main_pools)
               + sum_list (map (\<lambda>n. case map_of (fst (pools_of L endpoint bo ro multi inc)) n of
                                       None \<Rightarrow> 0 | Some pool \<Rightarrow> length pool - 1)
                               (get_or [] isolated))
         \<and> take 1 combos = [snd (pools_of L endpoint bo ro multi inc)]"
proof -
  let ?pb = "pools_of L endpoint bo ro multi inc"
  from assms obtain main_pools sweeps where
    l: "lookup_pools (fst ?pb) (main_pool_names endpoint inc isolated) = Inr main_pools" and
    i: "isolated_combos (fst ?pb) (snd ?pb) (get_or [] isolated) = Inr sweeps" and
    c: "combos = main_combos (main_pool_names endpoint inc isolated) main_pools (snd ?pb) @ sweeps"
    by (auto simp: all_combos_dicts_def Let_def split: sum.splits)
  have inv: "\<And>n pool. map_of (fst ?pb) n = Some pool \<Longrightarrow>
      pool \<noteq> [] \<and> distinct pool \<and> map_of (snd ?pb) n = Some (hd pool)"
    by (rule pools_of_inv)
  have "length sweeps = sum_list (map (\<lambda>n. case map_of (fst ?pb) n of
                                       None \<Rightarrow> 0 | Some pool \<Rightarrow> length pool - 1) (get_or [] isolated))"
    by (rule isolated_combos_length [OF inv i])
  moreover have "take 1 combos = [snd ?pb]"
    unfolding c by (rule take1_main_combos [OF lookup_pools_Inr [OF l]]) (use inv in blast)
  ultimately show ?thesis
    using l c by (simp add: main_combos_def)
qed

lemma run_combinatorial_tests_Inr:
  assumes "e_params endpoint \<noteq> []"
      and "run_combinatorial_tests L net endpoint base_url headers cfg bo mode offset limit multi inc ro isolated w
             = (Inr out, w')"
  shows "\<exists>combos. all_combos_dicts L endpoint bo ro multi inc isolated = Inr combos
           \<and> co_total_count out = length combos
           \<and> map cr_params_used (co_results out) = subset mode offset limit combos"
proof -
  from assms obtain combos results where
    c: "all_combos_dicts L endpoint bo ro multi inc isolated = Inr combos" and
    f: "for_each (run_combination L net cfg base_url endpoint headers (effective_include endpoint inc)
                    (snd (pools_of L endpoint bo ro multi inc)))
          (subset mode offset limit combos) w = (Inr results, w')" and
    out: "out = \<lparr>co_results = results, co_total_count = length combos, co_offset = offset,
                 co_limit = limit\<rparr>"
    by (auto simp: run_combinatorial_tests_def bind_def lift_def ret_def split: sum.splits prod.splits)
  have "map cr_params_used results = subset mode offset limit combos"
    by (rule for_each_Inr [OF f]) (rule run_combination_params)
  with c out show ?thesis
    by simp
qed

lemma py_slice_first: "py_slice xs 0 1 = take 1 xs"
  using py_slice_nonneg [of xs 0 1] by simp

lemma same_filter_filtered_out: "same_filter a b \<Longrightarrow> filtered_out n a = filtered_out n b"
  by (auto simp: same_filter_def filtered_out_def split: option.splits)

lemma build_params_cong:
  assumes "same_overrides ov1 ov2"
      and "\<And>n. in_names n sk1 = in_names n sk2"
      and "\<And>n. in_names n em1 = in_names n em2"
      and "same_filter inc1 inc2"
  shows "build_params L ov1 sk1 em1 inc1 ps st = build_params L ov2 sk2 em2 inc2 ps st"
proof (induction ps arbitrary: st)
  case Nil
  then show ?case by simp
next
  case (Cons p ps)
  have f: "filtered_out (p_name p) inc1 = filtered_out (p_name p) inc2"
    by (rule same_filter_filtered_out [OF assms(4)])
  from assms(1) consider "ov1 = None" "ov2 = None"
    | d1 d2 where "ov1 = Some d1" "ov2 = Some d2" "map_of d1 = map_of d2"
    by (auto simp: same_overrides_def split: option.splits)
  then show ?case
  proof cases
    case 1
    with Cons.IH show ?thesis
      by (simp add: Let_def assms(2,3) f)
  next
    case 2
    with Cons.IH show ?thesis
      by (simp add: Let_def assms(2,3) f)
  qed
qed

lemma build_body_cong:
  assumes "same_overrides ov1 ov2"
      and "same_filter inc1 inc2"
  shows "build_body ov1 inc1 req props body = build_body ov2 inc2 req props body"
proof (induction props arbitrary: body)
  case Nil
  then show ?case by simp
next
  case (Cons np props)
  have f: "filtered_out (fst np) inc1 = filtered_out (fst np) inc2"
    by (rule same_filter_filtered_out [OF assms(2)])
  from assms(1) consider "ov1 = None" "ov2 = None"
    | d1 d2 where "ov1 = Some d1" "ov2 = Some d2" "map_of d1 = map_of d2"
    by (auto simp: same_overrides_def split: option.splits)
  then show ?case
  proof cases
    case 1
    with Cons.IH show ?thesis
      by (simp add: Let_def f)
  next
    case 2
    with Cons.IH show ?thesis
      by (simp add: Let_def f)
  qed
qed

section \<open>The Contract Parser\<close>

text \<open>
  Claim C6, as the code has it. \<^verbatim>\<open>parse_endpoints\<close> returns whenever no declared
  parameter and no body property of an operation it parses has a list or a dictionary
  for a type. When it returns, it returns one endpoint for each operation of the document whose method is one of the five, in
  order, with the operation's path and its method in upper case; the parameters of
  that endpoint are the operation's declared parameters, each parsed by the rule
  below, followed by the properties of its JSON request body (none if it has no such
  body), in order, leaving out every property whose name is the name of a declared
  parameter. The example of a declared parameter is the declared example if the key
  is present, else the schema-level example if present, else the default if it is not
  null, else the first enum value, else the fallback keyed by the type: \<open>integer\<close>
  gives \<open>1\<close>, \<open>number\<close> gives \<open>1.0\<close>, \<open>boolean\<close> gives \<open>true\<close>, \<open>string\<close>, \<open>array\<close>, any
  other string and any other hashable value give \<open>test\<close>, and a type that is a list or
  a dictionary raises \<open>TypeError\<close>. A body property has location \<open>body\<close> and its own
  name; its example is its example if that is truthy, else its default if that is
  truthy, else the same fallback; its enum is not consulted.
\<close>

theorem parse_endpoints_parameters:
  "(parse_endpoints L paths g = Inr eps
      \<and> (\<forall>pmd \<in> set (selected_operations L paths).
            distinct (map fst (body_properties (snd (snd pmd)))))
    \<longrightarrow> list_all2
          (\<lambda>ep pmd.
             e_path ep = fst pmd \<and> e_method ep = str_upper L (fst (snd pmd))
             \<and> map Inr (e_params ep)
                 = map parse_param (declared_parameters (snd (snd pmd)))
                   @ map (parse_body_prop (body_required (snd (snd pmd))))
                       (filter (\<lambda>np. fst np \<notin> set (map (\<lambda>rp. get_or [] (raw_name rp))
                                                      (declared_parameters (snd (snd pmd)))))
                          (body_properties (snd (snd pmd)))))
          eps (selected_operations L paths))
   \<and> ((\<forall>pmd \<in> set (selected_operations L paths).
          (\<forall>rp \<in> set (declared_parameters (snd (snd pmd))).
             \<not> unhashable (get_or (JStr ''string'')
                              (sch_type (get_or empty_schema (raw_schema rp)))))
          \<and> (\<forall>np \<in> set (body_properties (snd (snd pmd))).
                \<not> unhashable (get_or (JStr ''string'') (pr_type (snd np)))))
       \<longrightarrow> (\<exists>parsed. parse_endpoints L paths g = Inr parsed))
   \<and> (raw_example p = Some v \<longrightarrow> map_sum id p_example (parse_param p) = Inr v)
   \<and> (raw_example p = None \<and> sch_example (get_or empty_schema (raw_schema p)) = Some v
        \<longrightarrow> map_sum id p_example (parse_param p) = Inr v)
   \<and> (raw_example p = None \<and> sch_example (get_or empty_schema (raw_schema p)) = None
        \<and> sch_default (get_or empty_schema (raw_schema p)) \<noteq> JNull
        \<longrightarrow> map_sum id p_example (parse_param p)
            = Inr (sch_default (get_or empty_schema (raw_schema p))))
   \<and> (raw_example p = None \<and> sch_example (get_or empty_schema (raw_schema p)) = None
        \<and> sch_default (get_or empty_schema (raw_schema p)) = JNull
        \<and> sch_enum (get_or empty_schema (raw_schema p)) = Some (x # xs)
        \<longrightarrow> map_sum id p_example (parse_param p) = Inr x)
   \<and> (raw_example p = None \<and> sch_example (get_or empty_schema (raw_schema p)) = None
        \<and> sch_default (get_or empty_schema (raw_schema p)) = JNull
        \<and> sch_enum (get_or empty_schema (raw_schema p)) \<in> {None, Some []}
        \<longrightarrow> (case get_or (JStr ''string'') (sch_type (get_or empty_schema (raw_schema p))) of
               JStr t \<Rightarrow> map_sum id p_example (parse_param p)
                          = Inr (JStr (if t = ''integer'' then ''1''
                                       else if t = ''number'' then ''1.0''
                                       else if t = ''boolean'' then ''true''
                                       else ''test''))
             | JArr ys \<Rightarrow> parse_param p = Inl TypeError
             | JObj kvs \<Rightarrow> parse_param p = Inl TypeError
             | _ \<Rightarrow> map_sum id p_example (parse_param p) = Inr (JStr ''test'')))
   \<and> (parse_body_prop req np = Inr q \<longrightarrow> p_in q = ''body'' \<and> p_name q = fst np)
   \<and> (py_truthy (pr_example (snd np))
        \<longrightarrow> map_sum id p_example (parse_body_prop req np) = Inr (pr_example (snd np)))
   \<and> (\<not> py_truthy (pr_example (snd np)) \<and> py_truthy (pr_default (snd np))
        \<longrightarrow> map_sum id p_example (parse_body_prop req np) = Inr (pr_default (snd np)))
   \<and> (\<not> py_truthy (pr_example (snd np)) \<and> \<not> py_truthy (pr_default (snd np))
        \<longrightarrow> (case get_or (JStr ''string'') (pr_type (snd np)) of
               JStr t \<Rightarrow> map_sum id p_example (parse_body_prop req np)
                          = Inr (JStr (if t = ''integer'' then ''1''
                                       else if t = ''number'' then ''1.0''
                                       else if t = ''boolean'' then ''true''
                                       else ''test''))
             | JArr ys \<Rightarrow> parse_body_prop req np = Inl TypeError
             | JObj kvs \<Rightarrow> parse_body_prop req np = Inl TypeError
             | _ \<Rightarrow> map_sum id p_example (parse_body_prop req np) = Inr (JStr ''test'')))"
proof (intro conjI impI)
  assume a: "parse_endpoints L paths g = Inr eps
      \<and> (\<forall>pmd \<in> set (selected_operations L paths).
            distinct (map fst (body_properties (snd (snd pmd)))))"
  then have c: "collect (parse_operation L g) (selected_operations L paths) = Inr eps"
    by (simp add: parse_endpoints_def)
  show "list_all2
          (\<lambda>ep pmd.
             e_path ep = fst pmd \<and> e_method ep = str_upper L (fst (snd pmd))
             \<and> map Inr (e_params ep)
                 = map parse_param (declared_parameters (snd (snd pmd)))
                   @ map (parse_body_prop (body_required (snd (snd pmd))))
                       (filter (\<lambda>np. fst np \<notin> set (map (\<lambda>rp. get_or [] (raw_name rp))
                                                      (declared_parameters (snd (snd pmd)))))
                          (body_properties (snd (snd pmd)))))
          eps (selected_operations L paths)"
  proof (rule collect_all2 [OF c])
    fix pmd ep
    assume "pmd \<in> set (selected_operations L paths)" and p: "parse_operation L g pmd = Inr ep"
    with a have "distinct (map fst (body_properties (snd (snd pmd))))"
      by simp
    from parse_operation_params [OF p this]
    show "e_path ep = fst pmd \<and> e_method ep = str_upper L (fst (snd pmd))
             \<and> map Inr (e_params ep)
                 = map parse_param (declared_parameters (snd (snd pmd)))
                   @ map (parse_body_prop (body_required (snd (snd pmd))))
                       (filter (\<lambda>np. fst np \<notin> set (map (\<lambda>rp. get_or [] (raw_name rp))
                                                      (declared_parameters (snd (snd pmd)))))
                          (body_properties (snd (snd pmd))))" .
  qed
next
  assume "\<forall>pmd \<in> set (selected_operations L paths).
          (\<forall>rp \<in> set (declared_parameters (snd (snd pmd))).
             \<not> unhashable (get_or (JStr ''string'')
                              (sch_type (get_or empty_schema (raw_schema rp)))))
          \<and> (\<forall>np \<in> set (body_properties (snd (snd pmd))).
                \<not> unhashable (get_or (JStr ''string'') (pr_type (snd np))))"
  then have "\<forall>pmd \<in> set (selected_operations L paths). \<exists>ep. parse_operation L g pmd = Inr ep"
    by (simp add: parse_operation_total)
  then show "\<exists>parsed. parse_endpoints L paths g = Inr parsed"
    unfolding parse_endpoints_def by (rule collect_total)
next
  assume "raw_example p = Some v"
  then show "map_sum id p_example (parse_param p) = Inr v"
    by (simp add: parse_param_def Let_def)
next
  assume "raw_example p = None \<and> sch_example (get_or empty_schema (raw_schema p)) = Some v"
  then show "map_sum id p_example (parse_param p) = Inr v"
    by (simp add: parse_param_def Let_def)
next
  assume "raw_example p = None \<and> sch_example (get_or empty_schema (raw_schema p)) = None
        \<and> sch_default (get_or empty_schema (raw_schema p)) \<noteq> JNull"
  then show "map_sum id p_example (parse_param p)
      = Inr (sch_default (get_or empty_schema (raw_schema p)))"
    by (simp add: parse_param_def Let_def)
next
  assume "raw_example p = None \<and> sch_example (get_or empty_schema (raw_schema p)) = None
        \<and> sch_default (get_or empty_schema (raw_schema p)) = JNull
        \<and> sch_enum (get_or empty_schema (raw_schema p)) = Some (x # xs)"
  then show "map_sum id p_example (parse_param p) = Inr x"
    by (simp add: parse_param_def Let_def enum_truthy_def)
next
  assume a: "raw_example p = None \<and> sch_example (get_or empty_schema (raw_schema p)) = None
        \<and> sch_default (get_or empty_schema (raw_schema p)) = JNull
        \<and> sch_enum (get_or empty_schema (raw_schema p)) \<in> {None, Some []}"
  then have e: "\<not> enum_truthy (sch_enum (get_or empty_schema (raw_schema p)))"
    by (auto simp: enum_truthy_def)
  show "case get_or (JStr ''string'') (sch_type (get_or empty_schema (raw_schema p))) of
               JStr t \<Rightarrow> map_sum id p_example (parse_param p)
                          = Inr (JStr (if t = ''integer'' then ''1''
                                       else if t = ''number'' then ''1.0''
                                       else if t = ''boolean'' then ''true''
                                       else ''test''))
             | JArr ys \<Rightarrow> parse_param p = Inl TypeError
             | JObj kvs \<Rightarrow> parse_param p = Inl TypeError
             | _ \<Rightarrow> map_sum id p_example (parse_param p) = Inr (JStr ''test'')"
  proof (cases "get_or (JStr ''string'') (sch_type (get_or empty_schema (raw_schema p)))")
    case (JStr t)
    with a e show ?thesis
      by (simp add: parse_param_def Let_def type_fallback)
  qed (use a e in \<open>simp_all add: parse_param_def Let_def type_default_def\<close>)
next
  assume "parse_body_prop req np = Inr q"
  then show "p_in q = ''body''"
    by (auto simp: parse_body_prop_def Let_def split: sum.splits)
next
  assume "parse_body_prop req np = Inr q"
  then show "p_name q = fst np"
    by (rule parse_body_prop_name)
next
  assume "py_truthy (pr_example (snd np))"
  then show "map_sum id p_example (parse_body_prop req np) = Inr (pr_example (snd np))"
    by (simp add: parse_body_prop_def Let_def py_or_def)
next
  assume "\<not> py_truthy (pr_example (snd np)) \<and> py_truthy (pr_default (snd np))"
  then show "map_sum id p_example (parse_body_prop req np) = Inr (pr_default (snd np))"
    by (simp add: parse_body_prop_def Let_def py_or_def)
next
  assume a: "\<not> py_truthy (pr_example (snd np)) \<and> \<not> py_truthy (pr_default (snd np))"
  show "case get_or (JStr ''string'') (pr_type (snd np)) of
               JStr t \<Rightarrow> map_sum id p_example (parse_body_prop req np)
                          = Inr (JStr (if t = ''integer'' then ''1''
                                       else if t = ''number'' then ''1.0''
                                       else if t = ''boolean'' then ''true''
                                       else ''test''))
             | JArr ys \<Rightarrow> parse_body_prop req np = Inl TypeError
             | JObj kvs \<Rightarrow> parse_body_prop req np = Inl TypeError
             | _ \<Rightarrow> map_sum id p_example (parse_body_prop req np) = Inr (JStr ''test'')"
  proof (cases "get_or (JStr ''string'') (pr_type (snd np))")
    case (JStr t)
    with a show ?thesis
      by (simp add: parse_body_prop_def Let_def py_or_def body_type_fallback)
  qed (use a in \<open>simp_all add: parse_body_prop_def Let_def py_or_def type_default_def\<close>)
qed

theorem parse_endpoints_parameters_witness:
  "selected_operations sample_lib sample_paths = [(''/items'', ''post'', create_item)]
   \<and> distinct (map fst (body_properties create_item))
   \<and> map (\<lambda>rp. get_or (JStr ''string'') (sch_type (get_or empty_schema (raw_schema rp))))
        (declared_parameters create_item) = [JStr ''string'']
   \<and> map (\<lambda>np. get_or (JStr ''string'') (pr_type (snd np))) (body_properties create_item)
        = [JStr ''string'', JStr ''string'']
   \<and> selected_operations sample_lib listing_paths = [(''/items'', ''GET'', list_items)]
   \<and> body_properties list_items = []
   \<and> map (\<lambda>rp. get_or (JStr ''string'') (sch_type (get_or empty_schema (raw_schema rp))))
        (declared_parameters list_items) = [JStr ''integer'']
   \<and> (\<exists>created listed.
        parse_endpoints sample_lib sample_paths ''shop'' = Inr [created]
        \<and> e_method created = ''POST''
        \<and> map (\<lambda>q. (p_name q, p_in q, p_example q)) (e_params created)
            = [(''shop'', ''query'', JStr ''S''), (''size'', ''body'', JStr ''test'')]
        \<and> parse_endpoints sample_lib listing_paths ''shop'' = Inr [listed]
        \<and> e_method listed = ''GET''
        \<and> map Inr (e_params listed) = [parse_param page_raw_param]
        \<and> map (\<lambda>q. (p_name q, p_in q, p_example q)) (e_params listed)
            = [(''page'', ''query'', JStr ''1'')])"
proof -
  let ?f = "\<lambda>q. (p_name q, p_in q, p_example q)"
  have lo: "str_lower sample_lib ''post'' = ''post''" "str_lower sample_lib ''options'' = ''options''"
    "str_lower sample_lib ''GET'' = ''get''"
    by code_simp+
  have u: "str_upper sample_lib ''post'' = ''POST''" "str_upper sample_lib ''GET'' = ''GET''"
    by code_simp+
  have s1: "selected_operations sample_lib sample_paths = [(''/items'', ''post'', create_item)]"
    by (simp add: selected_operations_def sample_paths_def http_methods_def lo)
  have d1: "distinct (map fst (body_properties create_item))"
    by (simp add: body_properties_def request_body_schema_of_def create_item_def
          create_item_body_def get_or_def)
  have t1: "map (\<lambda>rp. get_or (JStr ''string'') (sch_type (get_or empty_schema (raw_schema rp))))
        (declared_parameters create_item) = [JStr ''string'']"
    by (simp add: declared_parameters_def create_item_def shop_raw_param_def get_or_def)
  have b1: "map (\<lambda>np. get_or (JStr ''string'') (pr_type (snd np))) (body_properties create_item)
        = [JStr ''string'', JStr ''string'']"
    by (simp add: body_properties_def request_body_schema_of_def create_item_def
          create_item_body_def size_prop_def get_or_def)
  have s2: "selected_operations sample_lib listing_paths = [(''/items'', ''GET'', list_items)]"
    by (simp add: selected_operations_def listing_paths_def http_methods_def lo)
  have b2: "body_properties list_items = []"
    by (simp add: body_properties_def request_body_schema_of_def list_items_def)
  have t2: "map (\<lambda>rp. get_or (JStr ''string'') (sch_type (get_or empty_schema (raw_schema rp))))
        (declared_parameters list_items) = [JStr ''integer'']"
    by (simp add: declared_parameters_def list_items_def page_raw_param_def get_or_def)
  have h1: "\<forall>pmd \<in> set (selected_operations sample_lib sample_paths).
          (\<forall>rp \<in> set (declared_parameters (snd (snd pmd))).
             \<not> unhashable (get_or (JStr ''string'')
                              (sch_type (get_or empty_schema (raw_schema rp)))))
          \<and> (\<forall>np \<in> set (body_properties (snd (snd pmd))).
                \<not> unhashable (get_or (JStr ''string'') (pr_type (snd np))))"
    using all_of_map [OF t1, of "\<lambda>ty. \<not> unhashable ty"]
      all_of_map [OF b1, of "\<lambda>ty. \<not> unhashable ty"]
    by (simp add: s1)
  have h2: "\<forall>pmd \<in> set (selected_operations sample_lib listing_paths).
          (\<forall>rp \<in> set (declared_parameters (snd (snd pmd))).
             \<not> unhashable (get_or (JStr ''string'')
                              (sch_type (get_or empty_schema (raw_schema rp)))))
          \<and> (\<forall>np \<in> set (body_properties (snd (snd pmd))).
                \<not> unhashable (get_or (JStr ''string'') (pr_type (snd np))))"
    using all_of_map [OF t2, of "\<lambda>ty. \<not> unhashable ty"]
    by (simp add: s2 b2)
  from mp [OF conjunct1 [OF conjunct2 [OF parse_endpoints_parameters
              [of sample_lib sample_paths "''shop''"]]] h1]
  obtain eps1 where p1: "parse_endpoints sample_lib sample_paths ''shop'' = Inr eps1"
    by (elim exE)
  from mp [OF conjunct1 [OF parse_endpoints_parameters
              [of sample_lib sample_paths "''shop''" eps1]]] p1 d1
  obtain created where k1: "eps1 = [created]"
    and c: "e_method created = ''POST''"
    and c': "map Inr (e_params created)
               = map parse_param (declared_parameters create_item)
                 @ map (parse_body_prop (body_required create_item))
                     (filter (\<lambda>np. fst np \<notin> set (map (\<lambda>rp. get_or [] (raw_name rp))
                                                    (declared_parameters create_item)))
                        (body_properties create_item))"
    by (auto simp: s1 u list_all2_Cons2)
  have e1: "map (map_sum id ?f)
          (map parse_param (declared_parameters create_item)
           @ map (parse_body_prop (body_required create_item))
               (filter (\<lambda>np. fst np \<notin> set (map (\<lambda>rp. get_or [] (raw_name rp))
                                              (declared_parameters create_item)))
                  (body_properties create_item)))
        = map Inr [(''shop'', ''query'', JStr ''S''), (''size'', ''body'', JStr ''test'')]"
    by code_simp
  from e1 [folded c'] have c'': "map ?f (e_params created)
      = [(''shop'', ''query'', JStr ''S''), (''size'', ''body'', JStr ''test'')]"
    by (rule map_sum_Inr_eq)
  from mp [OF conjunct1 [OF conjunct2 [OF parse_endpoints_parameters
              [of sample_lib listing_paths "''shop''"]]] h2]
  obtain eps2 where p2: "parse_endpoints sample_lib listing_paths ''shop'' = Inr eps2"
    by (elim exE)
  from mp [OF conjunct1 [OF parse_endpoints_parameters
              [of sample_lib listing_paths "''shop''" eps2]]] p2 b2
  obtain listed where k2: "eps2 = [listed]"
    and l: "e_method listed = ''GET''"
    and l': "map Inr (e_params listed) = [parse_param page_raw_param]"
    by (auto simp: s2 u list_all2_Cons2 declared_parameters_def list_items_def get_or_def)
  have e2: "map (map_sum id ?f) [parse_param page_raw_param] = map Inr [(''page'', ''query'', JStr ''1'')]"
    by code_simp
  from e2 [folded l'] have l'': "map ?f (e_params listed) = [(''page'', ''query'', JStr ''1'')]"
    by (rule map_sum_Inr_eq)
  from p1 [unfolded k1] c c'' p2 [unfolded k2] l l' l'' have "\<exists>created listed.
        parse_endpoints sample_lib sample_paths ''shop'' = Inr [created]
        \<and> e_method created = ''POST''
        \<and> map ?f (e_params created)
            = [(''shop'', ''query'', JStr ''S''), (''size'', ''body'', JStr ''test'')]
        \<and> parse_endpoints sample_lib listing_paths ''shop'' = Inr [listed]
        \<and> e_method listed = ''GET''
        \<and> map Inr (e_params listed) = [parse_param page_raw_param]
        \<and> map ?f (e_params listed) = [(''page'', ''query'', JStr ''1'')]"
    by (intro exI [of _ created] exI [of _ listed] conjI)
  with s1 d1 t1 b1 s2 b2 t2 show ?thesis
    by (intro conjI)
qed

text \<open>
  The claim as stated fails for body properties: where the declared parameter \<open>shop\<close>
  takes its example from the first enum value, the body property \<open>size\<close> with the same
  enum gets the type fallback. The \<^verbatim>\<open>options\<close> operation is not parsed, and the body
  property \<open>shop\<close> is skipped. And where the fallback is reached with the type
  \<^verbatim>\<open>["integer", "null"]\<close>, no parameter is parsed: the lookup raises.
\<close>

theorem body_property_ignores_enum_counterexample:
  "map_sum id (\<lambda>eps. map (\<lambda>p. (p_name p, p_in p, p_enum p, p_example p)) (concat (map e_params eps)))
     (parse_endpoints sample_lib sample_paths ''shop'')
   = Inr [(''shop'', ''query'', Some [JStr ''S'', JStr ''M''], JStr ''S''),
          (''size'', ''body'', Some [JStr ''S'', JStr ''M''], JStr ''test'')]
   \<and> parse_endpoints sample_lib nullable_paths ''shop'' = Inl TypeError"
  by code_simp

section \<open>The Request Builder\<close>

text \<open>
  Claim C5. \<^verbatim>\<open>build_test_url\<close> is a function of its arguments alone: it takes no request
  log and returns none, and two calls whose endpoint and base URL are equal, whose
  override dictionaries have the same entries, whose skip-sets and empty-sets have the
  same members and whose inclusion filters have the same members return the same URL
  and the same JSON body (or raise the same exception). Calling it twice with
  identical inputs is the special case of equal arguments.
\<close>

theorem build_test_url_pure:
  assumes "same_overrides overrides1 overrides2"
      and "\<And>n. in_names n skip1 = in_names n skip2"
      and "\<And>n. in_names n empty1 = in_names n empty2"
      and "same_filter include1 include2"
  shows "build_test_url L base_url endpoint overrides1 skip1 empty1 include1
           = build_test_url L base_url endpoint overrides2 skip2 empty2 include2"
proof -
  have p: "build_params L overrides1 skip1 empty1 include1 ps st
             = build_params L overrides2 skip2 empty2 include2 ps st" for ps st
    by (rule build_params_cong [OF assms])
  have b: "build_body overrides1 include1 req props body
             = build_body overrides2 include2 req props body" for req props body
    by (rule build_body_cong [OF assms(1,4)])
  show ?thesis
    unfolding build_test_url_def p b ..
qed

theorem build_test_url_pure_witness:
  "build_test_url sample_lib ''http://api.test/'' items_endpoint
       (Some [(''category'', JStr ''boots''), (''limit'', JStr ''5'')]) (Some {''limit''}) None
       (Some [''category'', ''limit''])
     = Inr (''http://api.test/items?category=boots'', [])
   \<and> build_test_url sample_lib ''http://api.test/'' items_endpoint
       (Some [(''limit'', JStr ''5''), (''category'', JStr ''boots'')]) (Some {''limit''}) (Some {})
       (Some [''limit'', ''category'', ''limit''])
     = Inr (''http://api.test/items?category=boots'', [])"
proof -
  have a: "same_overrides (Some [(''category'', JStr ''boots''), (''limit'', JStr ''5'')])
             (Some [(''limit'', JStr ''5''), (''category'', JStr ''boots'')])"
    by (auto simp: same_overrides_def fun_eq_iff)
  have b: "\<And>n. in_names n None = in_names n (Some {})"
    by (simp add: in_names_def)
  have c: "same_filter (Some [''category'', ''limit'']) (Some [''limit'', ''category'', ''limit''])"
    by (auto simp: same_filter_def)
  have d: "build_test_url sample_lib ''http://api.test/'' items_endpoint
       (Some [(''category'', JStr ''boots''), (''limit'', JStr ''5'')]) (Some {''limit''}) None
       (Some [''category'', ''limit''])
     = Inr (''http://api.test/items?category=boots'', [])"
    by code_simp
  from build_test_url_pure [OF a refl b c, of sample_lib "''http://api.test/''" items_endpoint "Some {''limit''}"] d
  show ?thesis
    by simp
qed

section \<open>The HTTP probe\<close>

text \<open>
  Claim C2, as the code has it. \<^verbatim>\<open>call_endpoint\<close> returns a result whenever the
  transport raises nothing but \<^verbatim>\<open>requests\<close>' own exceptions (connection failure,
  timeout, or another \<open>RequestException\<close>) and decoding the body and printing it again
  raise nothing but \<open>ValueError\<close>. Then the result's \<open>error\<close> is set exactly when the
  transport failed; a result with an error has no status code and a result without
  one has a status code; and a connection failure gives the error
  \<^verbatim>\<open>Connection refused or DNS failure\<close> with no status code. Any other exception of
  the transport leaves \<^verbatim>\<open>call_endpoint\<close>; so does any exception of the decoding or the
  printing that is neither a \<open>ValueError\<close> nor a \<open>RequestException\<close>, and one that is a
  \<open>RequestException\<close> gives a result with both an error and a status code.
\<close>

theorem call_endpoint_returns_or_propagates:
  "((\<forall>e. net w (dispatch url method headers json_body timeout) = Inl e \<longrightarrow> is_request_exception e)
     \<and> (\<forall>resp e. net w (dispatch url method headers json_body timeout) = Inr resp
           \<and> (resp_json resp = Inl e \<or> (\<exists>j. resp_json resp = Inr j \<and> json_dumps L j = Inl e))
           \<longrightarrow> e = ValueError)
    \<longrightarrow> (\<exists>r. fst (call_endpoint L net url method headers json_body timeout w) = Inr r
           \<and> (res_error r \<noteq> None \<longleftrightarrow> (\<exists>e. net w (dispatch url method headers json_body timeout) = Inl e))
           \<and> (res_error r \<noteq> None \<longrightarrow> res_status_code r = None)
           \<and> (res_error r = None \<longrightarrow> res_status_code r \<noteq> None)
           \<and> (\<forall>e. net w (dispatch url method headers json_body timeout) = Inl e \<and> is_connection_error e
                 \<longrightarrow> res_error r = Some ''Connection refused or DNS failure'' \<and> res_status_code r = None)))
   \<and> (\<forall>e. net w (dispatch url method headers json_body timeout) = Inl e \<and> \<not> is_request_exception e
         \<longrightarrow> fst (call_endpoint L net url method headers json_body timeout w) = Inl e)
   \<and> (\<forall>resp e. net w (dispatch url method headers json_body timeout) = Inr resp
         \<and> (resp_json resp = Inl e \<or> (\<exists>j. resp_json resp = Inr j \<and> json_dumps L j = Inl e))
         \<and> e \<noteq> ValueError
         \<longrightarrow> (if is_request_exception e
              then \<exists>r. fst (call_endpoint L net url method headers json_body timeout w) = Inr r
                     \<and> res_error r \<noteq> None \<and> res_status_code r = Some (resp_status_code resp)
              else fst (call_endpoint L net url method headers json_body timeout w) = Inl e))"
proof (intro conjI impI allI)
  assume a: "(\<forall>e. net w (dispatch url method headers json_body timeout) = Inl e \<longrightarrow> is_request_exception e)
     \<and> (\<forall>resp e. net w (dispatch url method headers json_body timeout) = Inr resp
           \<and> (resp_json resp = Inl e \<or> (\<exists>j. resp_json resp = Inr j \<and> json_dumps L j = Inl e))
           \<longrightarrow> e = ValueError)"
  show "\<exists>r. fst (call_endpoint L net url method headers json_body timeout w) = Inr r
           \<and> (res_error r \<noteq> None \<longleftrightarrow> (\<exists>e. net w (dispatch url method headers json_body timeout) = Inl e))
           \<and> (res_error r \<noteq> None \<longrightarrow> res_status_code r = None)
           \<and> (res_error r = None \<longrightarrow> res_status_code r \<noteq> None)
           \<and> (\<forall>e. net w (dispatch url method headers json_body timeout) = Inl e \<and> is_connection_error e
                 \<longrightarrow> res_error r = Some ''Connection refused or DNS failure'' \<and> res_status_code r = None)"
  proof (cases "net w (dispatch url method headers json_body timeout)")
    case (Inl e)
    with a have "is_request_exception e" by simp
    with Inl show ?thesis
      by (simp add: call_endpoint_def handle_transport_def initial_result_def Let_def)
  next
    case (Inr resp)
    show ?thesis
    proof (cases "resp_json resp")
      case e: (Inl e)
      with a Inr have "e = ValueError" by blast
      with e Inr show ?thesis
        by (simp add: call_endpoint_def record_response_def initial_result_def Let_def)
    next
      case j: (Inr j)
      show ?thesis
      proof (cases "json_dumps L j")
        case e: (Inl e)
        with a Inr j have "e = ValueError" by blast
        with e j Inr show ?thesis
          by (simp add: call_endpoint_def record_response_def initial_result_def Let_def)
      next
        case s: (Inr body_str)
        with j Inr show ?thesis
          by (simp add: call_endpoint_def record_response_def initial_result_def Let_def)
      qed
    qed
  qed
next
  fix e
  assume "net w (dispatch url method headers json_body timeout) = Inl e \<and> \<not> is_request_exception e"
  then show "fst (call_endpoint L net url method headers json_body timeout w) = Inl e"
    by (cases e)
       (simp_all add: call_endpoint_def handle_transport_def is_connection_error_def
          is_timeout_def Let_def)
next
  fix resp e
  assume a: "net w (dispatch url method headers json_body timeout) = Inr resp
         \<and> (resp_json resp = Inl e \<or> (\<exists>j. resp_json resp = Inr j \<and> json_dumps L j = Inl e))
         \<and> e \<noteq> ValueError"
  then have r: "\<exists>r. record_response L (initial_result url method) resp = Inl (e, r)
      \<and> res_status_code r = Some (resp_status_code resp)"
    by (auto simp: record_response_def Let_def)
  then obtain r where r1: "record_response L (initial_result url method) resp = Inl (e, r)"
    and r2: "res_status_code r = Some (resp_status_code resp)"
    by blast
  from a r1 have c: "fst (call_endpoint L net url method headers json_body timeout w)
      = handle_transport r timeout e"
    by (simp add: call_endpoint_def Let_def)
  show "if is_request_exception e
        then \<exists>r. fst (call_endpoint L net url method headers json_body timeout w) = Inr r
               \<and> res_error r \<noteq> None \<and> res_status_code r = Some (resp_status_code resp)
        else fst (call_endpoint L net url method headers json_body timeout w) = Inl e"
    unfolding c using r2
    by (cases e) (simp_all add: handle_transport_def is_connection_error_def is_timeout_def)
qed

theorem call_endpoint_returns_or_propagates_witness:
  "unreachable [] (dispatch ''http://down.invalid/items'' ''GET'' None None 10) = Inl ConnectionError
   \<and> is_request_exception ConnectionError
   \<and> (\<exists>r. fst (call_endpoint sample_lib unreachable ''http://down.invalid/items'' ''GET'' None None 10 []) = Inr r
        \<and> res_error r = Some ''Connection refused or DNS failure'' \<and> res_status_code r = None)
   \<and> (\<exists>resp. always_ok [] (dispatch ''http://api.test/items'' ''GET'' None None 10) = Inr resp
        \<and> resp_json resp = Inr (JObj []) \<and> json_dumps sample_lib (JObj []) = Inr ''{}'')
   \<and> (\<exists>r. fst (call_endpoint sample_lib always_ok ''http://api.test/items'' ''GET'' None None 10 []) = Inr r
        \<and> res_error r = None \<and> res_status_code r \<noteq> None)"
proof -
  have h: "(\<forall>e. unreachable [] (dispatch ''http://down.invalid/items'' ''GET'' None None 10) = Inl e
              \<longrightarrow> is_request_exception e)
     \<and> (\<forall>resp e. unreachable [] (dispatch ''http://down.invalid/items'' ''GET'' None None 10) = Inr resp
           \<and> (resp_json resp = Inl e \<or> (\<exists>j. resp_json resp = Inr j \<and> json_dumps sample_lib j = Inl e))
           \<longrightarrow> e = ValueError)"
    by (simp add: unreachable_def)
  have c: "unreachable [] (dispatch ''http://down.invalid/items'' ''GET'' None None 10) = Inl ConnectionError"
    "is_connection_error ConnectionError" "is_request_exception ConnectionError"
    by (simp_all add: unreachable_def is_connection_error_def)
  from h c
    call_endpoint_returns_or_propagates [of unreachable "[]" "''http://down.invalid/items''" "''GET''"
      None None 10 sample_lib]
  have down: "\<exists>r. fst (call_endpoint sample_lib unreachable ''http://down.invalid/items'' ''GET'' None None 10 []) = Inr r
        \<and> res_error r = Some ''Connection refused or DNS failure'' \<and> res_status_code r = None"
    by simp blast
  have k: "(\<forall>e. always_ok [] (dispatch ''http://api.test/items'' ''GET'' None None 10) = Inl e
              \<longrightarrow> is_request_exception e)
     \<and> (\<forall>resp e. always_ok [] (dispatch ''http://api.test/items'' ''GET'' None None 10) = Inr resp
           \<and> (resp_json resp = Inl e \<or> (\<exists>j. resp_json resp = Inr j \<and> json_dumps sample_lib j = Inl e))
           \<longrightarrow> e = ValueError)"
    by (auto simp: always_ok_def answer_def sample_lib_def)
  have n: "\<not> (\<exists>e. always_ok [] (dispatch ''http://api.test/items'' ''GET'' None None 10) = Inl e)"
    by (simp add: always_ok_def)
  have o: "\<exists>resp. always_ok [] (dispatch ''http://api.test/items'' ''GET'' None None 10) = Inr resp
        \<and> resp_json resp = Inr (JObj []) \<and> json_dumps sample_lib (JObj []) = Inr ''{}''"
    by (simp add: always_ok_def answer_def sample_lib_def)
  from mp [OF conjunct1 [OF call_endpoint_returns_or_propagates
                [of always_ok "[]" "''http://api.test/items''" "''GET''" None None 10 sample_lib]] k]
  obtain r where r1: "fst (call_endpoint sample_lib always_ok ''http://api.test/items'' ''GET'' None None 10 []) = Inr r"
    and r2: "res_error r \<noteq> None \<longleftrightarrow> (\<exists>e. always_ok [] (dispatch ''http://api.test/items'' ''GET'' None None 10) = Inl e)"
    and r3: "res_error r = None \<longrightarrow> res_status_code r \<noteq> None"
    by (elim exE conjE)
  from n r2 have r4: "res_error r = None"
    by simp
  with r3 have "res_status_code r \<noteq> None"
    by simp
  with r1 r4 have up: "\<exists>r. fst (call_endpoint sample_lib always_ok ''http://api.test/items'' ''GET'' None None 10 []) = Inr r
        \<and> res_error r = None \<and> res_status_code r \<noteq> None"
    by (intro exI [of _ r] conjI)
  from c(1) c(3) down o up show ?thesis
    by (intro conjI)
qed

text \<open>
  The claim as stated fails: a timeout of zero makes the transport raise \<open>ValueError\<close>
  before anything is sent, and a body nested too deeply makes \<^verbatim>\<open>resp.json()\<close> raise
  \<open>RecursionError\<close>; no handler catches either, and \<^verbatim>\<open>call_endpoint\<close> raises.
\<close>

theorem call_endpoint_raises_counterexample:
  "fst (call_endpoint sample_lib rejects_timeout ''http://api.test/items'' ''GET'' None None 0 [])
     = Inl ValueError
   \<and> fst (call_endpoint sample_lib deeply_nested ''http://api.test/items'' ''GET'' None None 10 [])
     = Inl RecursionError"
  by code_simp

text \<open>
  Claim C10. For a method string other than GET, POST, PUT, DELETE and PATCH the probe
  issues exactly one request, a GET to the given URL with the given headers and no
  body, and whatever it returns is what the same call with method GET returns, except
  that the result records the method string it was given.
\<close>

theorem unknown_method_issues_get:
  assumes "method \<notin> {''GET'', ''POST'', ''PUT'', ''DELETE'', ''PATCH''}"
  shows "snd (call_endpoint L net url method headers json_body timeout w)
           = w @ [\<lparr>rq_verb = GET, rq_url = url, rq_headers = headers, rq_json = None, rq_timeout = timeout\<rparr>]
         \<and> call_endpoint L net url method headers json_body timeout w
           = (map_sum id (\<lambda>r. r\<lparr>res_method := method\<rparr>)
                (fst (call_endpoint L net url ''GET'' headers json_body timeout w)),
              snd (call_endpoint L net url ''GET'' headers json_body timeout w))"
proof -
  from assms have d: "dispatch url method headers json_body timeout
      = \<lparr>rq_verb = GET, rq_url = url, rq_headers = headers, rq_json = None, rq_timeout = timeout\<rparr>"
    by (simp add: dispatch_def Let_def)
  have g: "dispatch url ''GET'' headers json_body timeout
      = \<lparr>rq_verb = GET, rq_url = url, rq_headers = headers, rq_json = None, rq_timeout = timeout\<rparr>"
    by (simp add: dispatch_def Let_def)
  show ?thesis
    unfolding call_endpoint_def Let_def d g
    by (auto simp: handle_transport_def record_response_def initial_result_def Let_def
             split: sum.splits option.splits)
qed

theorem unknown_method_issues_get_witness:
  "''HEAD'' \<notin> {''GET'', ''POST'', ''PUT'', ''DELETE'', ''PATCH''}
   \<and> snd (call_endpoint sample_lib unreachable ''http://api.test/items'' ''HEAD'' None (Some []) 10 [])
       = [\<lparr>rq_verb = GET, rq_url = ''http://api.test/items'', rq_headers = None, rq_json = None,
           rq_timeout = 10\<rparr>]"
proof -
  have h: "''HEAD'' \<notin> {''GET'', ''POST'', ''PUT'', ''DELETE'', ''PATCH''}"
    by simp
  have "snd (call_endpoint sample_lib unreachable ''http://api.test/items'' ''HEAD'' None (Some []) 10 [])
       = [] @ [\<lparr>rq_verb = GET, rq_url = ''http://api.test/items'', rq_headers = None, rq_json = None,
           rq_timeout = 10\<rparr>]"
    by (rule conjunct1 [OF unknown_method_issues_get [OF h]])
  with h show ?thesis
    by simp
qed

section \<open>The Value Pool Builder\<close>

text \<open>
  Claim C7. For an included parameter flagged for multi-value combination testing with
  at least one collected sample, the pool is the list of all non-empty sub-selections
  of the samples, each as a JSON list, followed by the absence sentinel when the
  parameter is optional. The sub-selections are those of \<open>subseqs\<close>, taken size by size
  from 1 to the number of samples and deduplicated: every non-empty sub-selection
  occurs, sizes never decrease along the pool, and within a size the order is the
  input order. For the samples \<open>[a, b]\<close> with \<open>a \<noteq> b\<close> they are \<open>[[a], [b], [a, b]]\<close>.
\<close>

theorem multi_value_pool_is_power_set:
  assumes "p_name p \<in> set include_params"
      and "p_name p \<in> set multi_params"
      and "all_samples L base_overrides random_overrides p = samples"
      and "samples \<noteq> []"
  shows "\<exists>subsets.
           value_pool L base_overrides random_overrides multi_params include_params p
             = map (\<lambda>ys. JArr (map JStr ys)) subsets @ (if p_required p then [] else [JNull])
         \<and> subsets = dedup (concat (map (\<lambda>k. filter (\<lambda>ys. length ys = k) (subseqs samples))
                                         [1 ..< length samples + 1]))
         \<and> set subsets = {ys. subseq ys samples \<and> ys \<noteq> []}
         \<and> sorted (map length subsets)
         \<and> (distinct samples \<longrightarrow>
               subsets = concat (map (\<lambda>k. filter (\<lambda>ys. length ys = k) (subseqs samples))
                                     [1 ..< length samples + 1]))
         \<and> (\<forall>a b. samples = [a, b] \<and> a \<noteq> b \<longrightarrow> subsets = [[a], [b], [a, b]])"
proof -
  let ?all = "concat (map (combinations samples) [1 ..< length samples + 1])"
  let ?subsets = "dedup ?all"
  have c: "candidates True samples = map (\<lambda>ys. JArr (map JStr ys)) ?all"
    by (rule candidates_multi)
  then have d: "dedup (candidates True samples) = map (\<lambda>ys. JArr (map JStr ys)) ?subsets"
    by (simp add: dedup_map [OF inj_JArr_JStr])
  from assms(4) have ne: "dedup (candidates True samples) \<noteq> []"
    by (simp add: dedup_empty_iff candidates_empty_iff)
  have nn: "JNull \<notin> set (dedup (candidates True samples))"
    by (simp add: set_dedup JNull_notin_candidates)
  have pool: "value_pool L base_overrides random_overrides multi_params include_params p
             = map (\<lambda>ys. JArr (map JStr ys)) ?subsets @ (if p_required p then [] else [JNull])"
    using assms(1,2,3) ne nn unfolding d [symmetric]
    by (simp add: value_pool_def Let_def)
  have "combinations samples = (\<lambda>k. filter (\<lambda>ys. length ys = k) (subseqs samples))"
    by (rule ext) (rule combinations_subseqs)
  then have eq: "?all = concat (map (\<lambda>k. filter (\<lambda>ys. length ys = k) (subseqs samples))
                                         [1 ..< length samples + 1])"
    by (simp only:)
  have st: "set ?subsets = {ys. subseq ys samples \<and> ys \<noteq> []}"
    by (simp only: set_dedup set_all_combinations)
  have so: "sorted (map length ?subsets)"
    by (rule sorted_dedup) (rule sorted_all_combinations)
  have di: "distinct samples \<longrightarrow> ?subsets = ?all"
  proof
    assume "distinct samples"
    then have "distinct (subseqs samples)"
      by (rule distinct_subseqs')
    then have "distinct ?all"
      unfolding eq by (rule distinct_concat_filter_length) simp
    then show "?subsets = ?all"
      by (rule dedup_distinct_id)
  qed
  have ex: "\<forall>a b. samples = [a, b] \<and> a \<noteq> b \<longrightarrow> ?subsets = [[a], [b], [a, b]]"
    by (auto simp: dedup_def upt_rec [of 1] upt_rec [of 2])
  from pool st so di ex show ?thesis
    unfolding eq by blast
qed

theorem multi_value_pool_is_power_set_witness:
  "p_name tags_param \<in> set [''tags'']
   \<and> all_samples sample_lib (Some [(''tags'', JStr ''a,b'')]) None tags_param = [''a'', ''b'']
   \<and> value_pool sample_lib (Some [(''tags'', JStr ''a,b'')]) None [''tags''] [''tags''] tags_param
       = [JArr [JStr ''a''], JArr [JStr ''b''], JArr [JStr ''a'', JStr ''b''], JNull]"
proof -
  have n: "p_name tags_param \<in> set [''tags'']"
    by (simp add: tags_param_def)
  have s: "all_samples sample_lib (Some [(''tags'', JStr ''a,b'')]) None tags_param = [''a'', ''b'']"
    by code_simp
  have r: "\<not> p_required tags_param"
    by (simp add: tags_param_def)
  from multi_value_pool_is_power_set [OF n n s] r
  show ?thesis
    using n s by auto
qed

text \<open>
  Claim C8. Every pool is non-empty. The pool of a required parameter holds the absence
  sentinel exactly when the parameter is included and no sample was collected for it,
  which is the synthetic pool \<open>[declared example or default, absent]\<close> that probes the
  omission of a required parameter; with samples, or outside the inclusion filter, a
  required parameter's pool has no sentinel. An included optional parameter without
  samples gets \<open>[absent]\<close>. In the dictionaries the generator builds, every pool comes
  from a parameter of the endpoint and the baseline value recorded for a name is the
  element at index 0 of its pool.
\<close>

theorem value_pool_sentinel:
  "value_pool L bo ro multi inc p \<noteq> []
   \<and> (p_required p \<longrightarrow>
        (JNull \<in> set (value_pool L bo ro multi inc p)
           \<longleftrightarrow> p_name p \<in> set inc \<and> all_samples L bo ro p = []))
   \<and> (p_name p \<in> set inc \<and> all_samples L bo ro p = [] \<and> p_required p \<longrightarrow>
        value_pool L bo ro multi inc p = [JStr (example_or_default L p), JNull])
   \<and> (p_name p \<in> set inc \<and> all_samples L bo ro p = [] \<and> \<not> p_required p \<longrightarrow>
        value_pool L bo ro multi inc p = [JNull])
   \<and> (map_of (fst (pools_of L endpoint bo ro multi_params include_params)) n = Some pool \<longrightarrow>
        pool \<noteq> []
        \<and> map_of (snd (pools_of L endpoint bo ro multi_params include_params)) n = Some (pool ! 0)
        \<and> (\<exists>q \<in> set (e_params endpoint). p_name q = n
              \<and> pool = value_pool L bo ro (get_or [] multi_params)
                         (effective_include endpoint include_params) q))"
proof (intro conjI impI)
  show "value_pool L bo ro multi inc p \<noteq> []"
    by (rule value_pool_nonempty)
  show "JNull \<in> set (value_pool L bo ro multi inc p)
           \<longleftrightarrow> p_name p \<in> set inc \<and> all_samples L bo ro p = []" if "p_required p"
    using that
    by (auto simp: value_pool_def Let_def set_dedup JNull_notin_candidates dedup_empty_iff
          candidates_empty_iff)
  show "value_pool L bo ro multi inc p = [JStr (example_or_default L p), JNull]"
    if "p_name p \<in> set inc \<and> all_samples L bo ro p = [] \<and> p_required p"
    using that by (simp add: value_pool_def Let_def dedup_empty_iff candidates_empty_iff)
  show "value_pool L bo ro multi inc p = [JNull]"
    if "p_name p \<in> set inc \<and> all_samples L bo ro p = [] \<and> \<not> p_required p"
    using that by (simp add: value_pool_def Let_def dedup_empty_iff candidates_empty_iff)
  assume m: "map_of (fst (pools_of L endpoint bo ro multi_params include_params)) n = Some pool"
  from pools_of_inv [OF m] show "pool \<noteq> []"
    by simp
  from pools_of_inv [OF m] show
    "map_of (snd (pools_of L endpoint bo ro multi_params include_params)) n = Some (pool ! 0)"
    by (simp add: hd_conv_nth)
  from m build_pools_origin [of L bo ro "get_or [] multi_params"
      "effective_include endpoint include_params" "e_params endpoint" "([], [])" n pool]
  show "\<exists>q \<in> set (e_params endpoint). p_name q = n
              \<and> pool = value_pool L bo ro (get_or [] multi_params)
                         (effective_include endpoint include_params) q"
    by (simp add: pools_of_def)
qed

theorem value_pool_sentinel_witness:
  "value_pool sample_lib (Some []) None [] [''category'', ''limit''] category_param
     = [JStr ''shoes'', JNull]
   \<and> value_pool sample_lib (Some []) None [] [''category'', ''limit''] limit_param = [JNull]
   \<and> value_pool sample_lib (Some [(''category'', JStr ''boots'')]) None [] [''category'', ''limit'']
        category_param = [JStr ''boots'']
   \<and> map_of (snd (pools_of sample_lib items_endpoint (Some []) None None None)) ''category''
       = Some (JStr ''shoes'')"
proof -
  have a: "p_name category_param \<in> set [''category'', ''limit'']
           \<and> all_samples sample_lib (Some []) None category_param = [] \<and> p_required category_param"
    by code_simp
  have b: "p_name limit_param \<in> set [''category'', ''limit'']
           \<and> all_samples sample_lib (Some []) None limit_param = [] \<and> \<not> p_required limit_param"
    by code_simp
  have c: "value_pool sample_lib (Some [(''category'', JStr ''boots'')]) None [] [''category'', ''limit'']
        category_param = [JStr ''boots'']"
    by code_simp
  have d: "map_of (fst (pools_of sample_lib items_endpoint (Some []) None None None)) ''category''
       = Some [JStr ''shoes'', JNull]"
    by code_simp
  have e: "example_or_default sample_lib category_param = ''shoes''"
    by code_simp
  from value_pool_sentinel [of sample_lib "Some []" None "[]" "[''category'', ''limit'']" category_param
       items_endpoint None None "''category''" "[JStr ''shoes'', JNull]"]
    value_pool_sentinel [of sample_lib "Some []" None "[]" "[''category'', ''limit'']" limit_param
       items_endpoint None None "''category''" "[JStr ''shoes'', JNull]"]
    a b c d e
  show ?thesis
    by (auto simp: category_param_def limit_param_def)
qed

section \<open>The Combination Generator\<close>

text \<open>
  Claim C3. For an endpoint with parameters, whenever \<^verbatim>\<open>run_combinatorial_tests\<close>
  returns, the total count it reports is the number of enumerated combinations, which
  is the size of the Cartesian product of the main-pool value pools (the product of
  their lengths) plus, summed over the isolated names that are parameters of the
  endpoint, the length of the pool minus one. In mode \<^verbatim>\<open>minimal\<close> the one combination
  tested is the baseline assignment; in any other mode the combinations tested are the
  Python slice \<^verbatim>\<open>[offset : offset + limit]\<close> of the enumeration, which for a
  non-negative offset and limit is the window of \<open>limit\<close> combinations after the first
  \<open>offset\<close>.
\<close>

theorem combination_count_and_window:
  assumes "e_params endpoint \<noteq> []"
      and "run_combinatorial_tests L net endpoint base_url headers cfg base_overrides mode offset limit
             multi_params include_params random_overrides isolated_params w = (Inr out, w')"
      and "pools = fst (pools_of L endpoint base_overrides random_overrides multi_params include_params)"
      and "baseline_values = snd (pools_of L endpoint base_overrides random_overrides multi_params include_params)"
  shows "\<exists>main_pools combos.
           lookup_pools pools (main_pool_names endpoint include_params isolated_params) = Inr main_pools
         \<and> all_combos_dicts L endpoint base_overrides random_overrides multi_params include_params
              isolated_params = Inr combos
         \<and> co_total_count out = length combos
         \<and> co_total_count out
             = length (product_lists main_pools)
               + sum_list (map (\<lambda>n. case map_of pools n of None \<Rightarrow> 0 | Some pool \<Rightarrow> length pool - 1)
                               (get_or [] isolated_params))
         \<and> length (product_lists main_pools) = prod_list (map length main_pools)
         \<and> (mode = ''minimal'' \<longrightarrow> map cr_params_used (co_results out) = [baseline_values])
         \<and> (mode \<noteq> ''minimal'' \<longrightarrow>
               map cr_params_used (co_results out) = py_slice combos offset (offset + limit))
         \<and> (mode \<noteq> ''minimal'' \<and> 0 \<le> offset \<and> 0 \<le> limit \<longrightarrow>
               map cr_params_used (co_results out) = take (nat limit) (drop (nat offset) combos))"
proof -
  from run_combinatorial_tests_Inr [OF assms(1,2)] obtain combos where
    c: "all_combos_dicts L endpoint base_overrides random_overrides multi_params include_params
              isolated_params = Inr combos" and
    t: "co_total_count out = length combos" and
    s: "map cr_params_used (co_results out) = subset mode offset limit combos"
    by blast
  from all_combos_dicts_Inr [OF c] obtain main_pools where
    l: "lookup_pools pools (main_pool_names endpoint include_params isolated_params) = Inr main_pools" and
    n: "length combos
             = length (product_lists main_pools)
               + sum_list (map (\<lambda>n. case map_of pools n of None \<Rightarrow> 0 | Some pool \<Rightarrow> length pool - 1)
                               (get_or [] isolated_params))" and
    b: "take 1 combos = [baseline_values]"
    unfolding assms(3,4) by blast
  have w: "0 \<le> offset \<and> 0 \<le> limit \<longrightarrow>
             py_slice combos offset (offset + limit) = take (nat limit) (drop (nat offset) combos)"
    using py_slice_nonneg [of combos "nat offset" "nat limit"] by auto
  from c t s l n b w show ?thesis
    by (auto simp: subset_def py_slice_first length_product_lists')
qed

theorem combination_count_and_window_witness:
  "e_params items_endpoint \<noteq> []
   \<and> (\<exists>out w'. run_combinatorial_tests sample_lib always_ok items_endpoint ''http://api.test'' None
                   sample_config (Some sample_overrides) ''full'' 1 2 None None None (Some [''limit'']) []
                 = (Inr out, w')
        \<and> co_total_count out = 2 + (2 - 1)
        \<and> map cr_params_used (co_results out)
            = [[(''category'', JStr ''boots''), (''limit'', JStr ''5'')],
               [(''category'', JStr ''shoes''), (''limit'', JNull)]])"
proof -
  let ?run = "run_combinatorial_tests sample_lib always_ok items_endpoint ''http://api.test'' None
                   sample_config (Some sample_overrides) ''full'' 1 2 None None None (Some [''limit'']) []"
  have p: "e_params items_endpoint \<noteq> []"
    by (simp add: items_endpoint_def)
  have "case fst ?run of Inr out \<Rightarrow> True | Inl e \<Rightarrow> False"
    by code_simp
  then obtain out where "fst ?run = Inr out"
    by (auto split: sum.splits)
  then have r: "?run = (Inr out, snd ?run)"
    by (simp add: prod_eq_iff)
  have lp: "lookup_pools (fst (pools_of sample_lib items_endpoint (Some sample_overrides) None None None))
              (main_pool_names items_endpoint None (Some [''limit'']))
            = Inr [[JStr ''shoes'', JStr ''boots'']]"
    by code_simp
  have ac: "all_combos_dicts sample_lib items_endpoint (Some sample_overrides) None None None
              (Some [''limit''])
            = Inr [[(''category'', JStr ''shoes''), (''limit'', JStr ''5'')],
                   [(''category'', JStr ''boots''), (''limit'', JStr ''5'')],
                   [(''category'', JStr ''shoes''), (''limit'', JNull)]]"
    by code_simp
  from combination_count_and_window [OF p r refl refl] lp ac p r
  show ?thesis
    by auto
qed

text \<open>
  Claim C4. Take any mode other than \<^verbatim>\<open>minimal\<close>, a window size \<open>l > 0\<close>, and calls at
  the offsets \<open>0, l, 2l, \<dots>, (n - 1) l\<close> that all return, with \<open>n l\<close> reaching the total
  count; the network and the request log may differ from call to call. Then every
  call, and any further call at any offset and limit, reports the same total count;
  a repeated call at one of the offsets tests the same combinations as the first one
  did; and the windows, concatenated in order, are exactly the enumeration
  (\<^verbatim>\<open>all_combos_dicts\<close>: the Cartesian product followed by the isolated sweeps), so
  each position of the enumeration is tested exactly once.
\<close>

theorem pagination_total_preserving:
  assumes "e_params endpoint \<noteq> []"
      and "mode \<noteq> ''minimal''"
      and "0 < l"
      and "\<And>k. k < n \<Longrightarrow>
             fst (run_combinatorial_tests L (nets k) endpoint base_url headers cfg base_overrides mode
                    (int (k * l)) (int l) multi_params include_params random_overrides isolated_params
                    (ws k)) = Inr (outs k)"
      and "0 < n"
      and "co_total_count (outs 0) \<le> n * l"
      and "fst (run_combinatorial_tests L net' endpoint base_url' headers' cfg' base_overrides mode
                  offset' limit' multi_params include_params random_overrides isolated_params w')
           = Inr out'"
  shows "co_total_count out' = co_total_count (outs 0)
       \<and> (\<forall>k<n. co_total_count (outs k) = co_total_count (outs 0))
       \<and> all_combos_dicts L endpoint base_overrides random_overrides multi_params include_params
            isolated_params
          = Inr (concat (map (\<lambda>k. map cr_params_used (co_results (outs k))) [0 ..< n]))
       \<and> (\<forall>k<n. offset' = int (k * l) \<and> limit' = int l \<longrightarrow>
             map cr_params_used (co_results out') = map cr_params_used (co_results (outs k)))"
proof -
  have run: "\<exists>w2. run_combinatorial_tests L (nets k) endpoint base_url headers cfg base_overrides mode
                    (int (k * l)) (int l) multi_params include_params random_overrides isolated_params
                    (ws k) = (Inr (outs k), w2)" if "k < n" for k
    using assms(4) [OF that] by (simp add: prod_eq_iff)
  from assms(7) have run': "\<exists>w2. run_combinatorial_tests L net' endpoint base_url' headers' cfg' base_overrides mode
                  offset' limit' multi_params include_params random_overrides isolated_params w'
           = (Inr out', w2)"
    by (simp add: prod_eq_iff)
  from run' run_combinatorial_tests_Inr [OF assms(1)] obtain combos where
    c: "all_combos_dicts L endpoint base_overrides random_overrides multi_params include_params
            isolated_params = Inr combos" and
    t': "co_total_count out' = length combos" and
    s': "map cr_params_used (co_results out') = subset mode offset' limit' combos"
    by blast
  have k: "co_total_count (outs k) = length combos
           \<and> map cr_params_used (co_results (outs k)) = take l (drop (k * l) combos)" if "k < n" for k
  proof -
    from run [OF that] run_combinatorial_tests_Inr [OF assms(1)] c
    have "co_total_count (outs k) = length combos"
      and "map cr_params_used (co_results (outs k)) = subset mode (int (k * l)) (int l) combos"
      by fastforce+
    with assms(2) py_slice_nonneg [of combos "k * l" l] show ?thesis
      by (simp add: subset_def)
  qed
  from k [OF assms(5)] have t0: "co_total_count (outs 0) = length combos"
    by simp
  have "concat (map (\<lambda>k. map cr_params_used (co_results (outs k))) [0 ..< n])
          = concat (map (\<lambda>k. take l (drop (k * l) combos)) [0 ..< n])"
    by (rule arg_cong [where f = concat]) (simp add: k)
  also have "\<dots> = take (n * l) combos"
    by (rule concat_windows_take)
  also from assms(6) t0 have "\<dots> = combos"
    by simp
  finally have all: "concat (map (\<lambda>k. map cr_params_used (co_results (outs k))) [0 ..< n]) = combos" .
  have same: "\<forall>k<n. offset' = int (k * l) \<and> limit' = int l \<longrightarrow>
             map cr_params_used (co_results out') = map cr_params_used (co_results (outs k))"
  proof (intro allI impI)
    fix j
    assume "j < n" and "offset' = int (j * l) \<and> limit' = int l"
    with s' k [of j] assms(2) py_slice_nonneg [of combos "j * l" l]
    show "map cr_params_used (co_results out') = map cr_params_used (co_results (outs j))"
      by (simp add: subset_def)
  qed
  from t' t0 k c all same show ?thesis
    by simp
qed


theorem pagination_total_preserving_witness:
  "all_combos_dicts sample_lib items_endpoint (Some sample_overrides) None None None (Some [''limit''])
     = Inr (concat (map (\<lambda>k. map cr_params_used (co_results (projr (fst
              (run_combinatorial_tests sample_lib always_ok items_endpoint ''http://api.test'' None
                 sample_config (Some sample_overrides) ''full'' (int (k * 2)) (int 2) None None None
                 (Some [''limit'']) []))))) [0 ..< 2]))
   \<and> co_total_count (projr (fst
              (run_combinatorial_tests sample_lib always_ok items_endpoint ''http://api.test'' None
                 sample_config (Some sample_overrides) ''full'' (int (1 * 2)) (int 2) None None None
                 (Some [''limit'']) [])))
     = co_total_count (projr (fst
              (run_combinatorial_tests sample_lib always_ok items_endpoint ''http://api.test'' None
                 sample_config (Some sample_overrides) ''full'' (int (0 * 2)) (int 2) None None None
                 (Some [''limit'']) [])))"
proof -
  let ?run = "\<lambda>k. run_combinatorial_tests sample_lib always_ok items_endpoint ''http://api.test'' None
                 sample_config (Some sample_overrides) ''full'' (int (k * 2)) (int 2) None None None
                 (Some [''limit'']) []"
  let ?outs = "\<lambda>k. projr (fst (?run k))"
  have p: "e_params items_endpoint \<noteq> []"
    by (simp add: items_endpoint_def)
  have m: "''full'' \<noteq> ''minimal''"
    by simp
  have r0: "case fst (?run 0) of Inr out \<Rightarrow> co_total_count out \<le> 2 * 2 | Inl e \<Rightarrow> False"
    by code_simp
  have r1: "case fst (?run 1) of Inr out \<Rightarrow> True | Inl e \<Rightarrow> False"
    by code_simp
  have runs: "fst (?run k) = Inr (?outs k)" if "k < 2" for k
  proof -
    from that have "k = 0 \<or> k = 1" by auto
    with r0 r1 show ?thesis
      by (auto split: sum.splits)
  qed
  from r0 have cover: "co_total_count (?outs 0) \<le> 2 * 2"
    by (auto split: sum.splits)
  from pagination_total_preserving [of items_endpoint "''full''" 2 2 sample_lib "\<lambda>k. always_ok"
      "''http://api.test''" None sample_config "Some sample_overrides" None None None "Some [''limit'']"
      "\<lambda>k. []" ?outs always_ok "''http://api.test''" None sample_config "int (1 * 2)" "int 2" "[]" "?outs 1",
      OF p m _ runs _ cover runs]
  show ?thesis
    by simp
qed

section \<open>The test pipeline\<close>

text \<open>
  Claim C1, as the code has it. If the request is built and the Baseline probe returns
  status 401, \<^verbatim>\<open>test_single_endpoint\<close> returns the minimal record: the Baseline result,
  empty lists of enum results, logic findings, granular fuzz results and auth findings,
  an empty combinatorial result, and an \<open>ai_analysis\<close> that is unset when \<open>run_ai\<close> is
  false and the fixed message \<^verbatim>\<open>Authentication failed (401)\<close> \<open>\<dots>\<close> when it is true. The only
  request issued is the Baseline probe: no Auth-Enforcement probe and no later phase
  runs.
\<close>

theorem baseline_401_halts:
  assumes "build_test_url L (base_url_of endpoint cfg) endpoint (merge_custom param_overrides custom_overrides)
             None None include_params = Inr (test_url, json_body)"
      and "run_baseline L net test_url (e_method endpoint)
             (Some (auth_headers_of L cfg auth_token username password)) cfg (Some json_body) endpoint w
           = (Inr baseline, w')"
      and "res_status_code baseline = Some 401"
  shows "test_single_endpoint L net endpoint cfg auth_token username password param_overrides
           random_overrides custom_overrides run_ai combinatorial_mode comb_offset comb_limit
           multi_params include_params isolated_params w
         = (Inr (Halted
              \<lparr>hr_baseline = baseline,
               hr_enum_results = [],
               hr_combinatorial_result =
                 \<lparr>co_results = [], co_total_count = 0, co_offset = comb_offset, co_limit = comb_limit\<rparr>,
               hr_logic_findings = [],
               hr_granular_fuzz = [],
               hr_auth_findings = [],
               hr_ai_analysis = (if run_ai then Some halted_ai_message else None)\<rparr>),
            w @ [dispatch test_url (e_method endpoint)
                   (Some (auth_headers_of L cfg auth_token username password)) (Some json_body)
                   (cfg_timeout_seconds cfg)])"
proof -
  from assms(2) have log: "w' = w @ [dispatch test_url (e_method endpoint)
                   (Some (auth_headers_of L cfg auth_token username password)) (Some json_body)
                   (cfg_timeout_seconds cfg)]"
    by (auto simp: run_baseline_def call_endpoint_def bind_def lift_def ret_def Let_def
             split: prod.splits sum.splits if_splits)
  from assms show ?thesis
    unfolding log [symmetric] test_single_endpoint_def Let_def
    by (simp add: bind_def lift_def ret_def)
qed

theorem baseline_401_halts_witness:
  "build_test_url sample_lib (base_url_of items_endpoint sample_config) items_endpoint
       (merge_custom None None) None None None
     = Inr (''http://api.test/items?category=shoes&limit=10'', [])
   \<and> (case test_single_endpoint sample_lib unauthorized items_endpoint sample_config
           (Some ''tok'') None None None None None False ''minimal'' 0 64 None None None [] of
        (Inr (Halted r), w) \<Rightarrow>
          res_status_code (hr_baseline r) = Some 401 \<and> hr_ai_analysis r = None
          \<and> w = [\<lparr>rq_verb = GET, rq_url = ''http://api.test/items?category=shoes&limit=10'',
                   rq_headers = Some [(''Authorization'', ''Bearer tok'')], rq_json = None,
                   rq_timeout = 10\<rparr>]
      | _ \<Rightarrow> False)"
proof -
  have b: "build_test_url sample_lib (base_url_of items_endpoint sample_config) items_endpoint
       (merge_custom None None) None None None
     = Inr (''http://api.test/items?category=shoes&limit=10'', [])"
    by code_simp
  have j: "json_dumps sample_lib (JObj []) = Inr ''{}''"
    by (simp add: sample_lib_def)
  obtain baseline w' where
    r: "run_baseline sample_lib unauthorized ''http://api.test/items?category=shoes&limit=10''
          (e_method items_endpoint) (Some (auth_headers_of sample_lib sample_config (Some ''tok'') None None))
          sample_config (Some []) items_endpoint [] = (Inr baseline, w')"
    and s: "res_status_code baseline = Some 401"
    by (simp add: run_baseline_def call_endpoint_def unauthorized_def answer_def bind_def lift_def
          ret_def record_response_def initial_result_def Let_def j)
  have d: "dispatch ''http://api.test/items?category=shoes&limit=10'' (e_method items_endpoint)
             (Some (auth_headers_of sample_lib sample_config (Some ''tok'') None None)) (Some [])
             (cfg_timeout_seconds sample_config)
           = \<lparr>rq_verb = GET, rq_url = ''http://api.test/items?category=shoes&limit=10'',
         rq_headers = Some [(''Authorization'', ''Bearer tok'')], rq_json = None, rq_timeout = 10\<rparr>"
    by code_simp
  from baseline_401_halts [OF b r s, of None False "''minimal''" 0 64 None None] b s d
  show ?thesis
    by simp
qed

text \<open>
  The claim as stated fails where it says that \<open>aiAnalysis\<close> is unset: with \<open>run_ai\<close> set,
  a Baseline answered by 401 gives a record whose \<open>ai_analysis\<close> is set.
\<close>

theorem baseline_401_sets_ai_analysis_counterexample:
  "(case fst (test_single_endpoint sample_lib unauthorized items_endpoint sample_config (Some ''tok'')
                None None None None None True ''minimal'' 0 64 None None None []) of
      Inr (Halted r) \<Rightarrow> res_status_code (hr_baseline r) = Some 401 \<and> hr_ai_analysis r \<noteq> None
    | _ \<Rightarrow> False)"
  by code_simp

section \<open>Invalid selections\<close>

text \<open>
  Claim C9, as the code has it. A request whose endpoint index is missing or out of
  range is answered with status 400 and \<^verbatim>\<open>Invalid endpoint index\<close>; the cache and the
  request log are those left by filling an empty cache, so no probe of the target is
  made. An offset at or beyond the total count is not rejected: in a mode other than
  \<^verbatim>\<open>minimal\<close> the combination phase then issues no request and returns an empty
  window together with the total count.
\<close>

theorem invalid_selection:
  "((if cached = [] then discover w else (Inr cached, w)) = (Inr cached', w')
      \<and> (tr_index data = None \<or> (\<exists>i. tr_index data = Some i \<and> (i < 0 \<or> int (length cached') \<le> i)))
     \<longrightarrow> run_test L net cfg discover data (cached, w)
           = ((400, ErrorMessage ''Invalid endpoint index''), cached', w'))
   \<and> (e_params endpoint \<noteq> [] \<and> mode \<noteq> ''minimal''
       \<and> all_combos_dicts L endpoint base_overrides random_overrides multi_params include_params
            isolated_params = Inr combos
       \<and> int (length combos) \<le> offset
     \<longrightarrow> run_combinatorial_tests L net endpoint base_url headers cfg base_overrides mode offset limit
           multi_params include_params random_overrides isolated_params w
         = (Inr \<lparr>co_results = [], co_total_count = length combos, co_offset = offset, co_limit = limit\<rparr>, w))"
proof (intro conjI impI)
  assume a: "(if cached = [] then discover w else (Inr cached, w)) = (Inr cached', w')
      \<and> (tr_index data = None \<or> (\<exists>i. tr_index data = Some i \<and> (i < 0 \<or> int (length cached') \<le> i)))"
  then show "run_test L net cfg discover data (cached, w)
           = ((400, ErrorMessage ''Invalid endpoint index''), cached', w')"
    by (auto simp: run_test_def Let_def)
next
  assume a: "e_params endpoint \<noteq> [] \<and> mode \<noteq> ''minimal''
       \<and> all_combos_dicts L endpoint base_overrides random_overrides multi_params include_params
            isolated_params = Inr combos
       \<and> int (length combos) \<le> offset"
  then have "subset mode offset limit combos = []"
    by (simp add: subset_def py_slice_beyond)
  with a show "run_combinatorial_tests L net endpoint base_url headers cfg base_overrides mode offset limit
           multi_params include_params random_overrides isolated_params w
         = (Inr \<lparr>co_results = [], co_total_count = length combos, co_offset = offset, co_limit = limit\<rparr>, w)"
    by (simp add: run_combinatorial_tests_def bind_def lift_def ret_def)
qed

theorem invalid_selection_witness:
  "run_test sample_lib always_ok sample_config no_discovery (sample_request\<lparr>tr_index := Some 1\<rparr>)
       ([items_endpoint], [])
     = ((400, ErrorMessage ''Invalid endpoint index''), [items_endpoint], [])
   \<and> run_combinatorial_tests sample_lib always_ok items_endpoint ''http://api.test'' None sample_config
         (Some []) ''full'' 1000 64 None None None None []
       = (Inr \<lparr>co_results = [], co_total_count = 2, co_offset = 1000, co_limit = 64\<rparr>, [])"
proof -
  have c: "all_combos_dicts sample_lib items_endpoint (Some []) None None None None
      = Inr [[(''category'', JStr ''shoes''), (''limit'', JNull)], [(''category'', JNull), (''limit'', JNull)]]"
    by code_simp
  have p: "e_params items_endpoint \<noteq> []"
    by (simp add: items_endpoint_def)
  from c p
    invalid_selection [where cached = "[items_endpoint]" and cached' = "[items_endpoint]"
      and w = "[]" and w' = "[]" and discover = no_discovery and L = sample_lib and net = always_ok
      and cfg = sample_config and data = "sample_request\<lparr>tr_index := Some 1\<rparr>"
      and endpoint = items_endpoint and mode = "''full''" and base_overrides = "Some []"
      and random_overrides = None and multi_params = None and include_params = None
      and isolated_params = None and offset = 1000 and limit = 64 and headers = None
      and base_url = "''http://api.test''"
      and combos = "[[(''category'', JStr ''shoes''), (''limit'', JNull)],
                     [(''category'', JNull), (''limit'', JNull)]]"]
  show ?thesis
    by (simp add: sample_request_def)
qed

text \<open>
  The claim as stated fails for the offset: a request for the window at offset 1000 of
  an enumeration of 2 combinations is answered with status 200 and a completed record,
  after 8 requests to the target.
\<close>

theorem offset_beyond_total_not_rejected_counterexample:
  "(case run_test sample_lib always_ok sample_config no_discovery sample_request ([items_endpoint], []) of
      ((status, Result (Completed r)), cached, w) \<Rightarrow>
        status = 200 \<and> co_total_count (fr_combinatorial_result r) = 2
        \<and> co_offset (fr_combinatorial_result r) = 1000
        \<and> co_results (fr_combinatorial_result r) = []
        \<and> length w = 8
    | _ \<Rightarrow> False)"
  by code_simp

end
